theory Spec2Isabelle
  imports Complex_Main "HOL-Library.Sublist"
begin

section \<open>Values of the program\<close>

text \<open>
  A Python \<open>str\<close> is a sequence of Unicode code points, so it is modelled as a list of
  naturals; \<open>len\<close> is \<open>length\<close>. ASCII literals of the source are written through
  \<open>str\<close>; the accented letters of the Portuguese keywords are given by their code
  points (precomposed form).

  A Python \<open>float\<close> is modelled as an exact rational: the development covers the
  arithmetic of the source without the rounding of IEEE doubles.
\<close>

type_synonym ustr = "nat list"
type_synonym pyfloat = rat

definition str :: "string \<Rightarrow> ustr" where
  "str s = map of_char s"

text \<open>
  Exceptions are values. \<open>Raised n\<close> stands for any other instance of \<open>Exception\<close>
  that an external collaborator (HTTP client, HTML reader, language detector, entity
  recogniser, hash index) raises; \<open>n\<close> only tells such exceptions apart. Asynchronous
  \<open>BaseException\<close>s (keyboard interrupt, interpreter exit) are outside the model.
\<close>

datatype exn =
  KeyError | TypeError | ValueError | UnicodeEncodeError | OperationalError | Raised nat

subsection \<open>String primitives of Python used by the source\<close>

text \<open>
  \<open>str.lower\<close> walks the string and replaces the character at every index by its
  lower-case mapping, which may have several code points and may depend on the
  context (final sigma). The mapping table \<open>lower_ucs4\<close> belongs to the interpreter
  and is a parameter: \<open>lower_ucs4 s i\<close> is the replacement of \<open>s ! i\<close>.
\<close>

definition lower :: "(ustr \<Rightarrow> nat \<Rightarrow> ustr) \<Rightarrow> ustr \<Rightarrow> ustr" where
  "lower lower_ucs4 s = concat (map (lower_ucs4 s) [0..<length s])"

text \<open>The ASCII part of the table, used to evaluate the definitions on concrete texts.\<close>

definition ascii_lower_ucs4 :: "ustr \<Rightarrow> nat \<Rightarrow> ustr" where
  "ascii_lower_ucs4 s i = (let c = s ! i in if 65 \<le> c \<and> c \<le> 90 then [c + 32] else [c])"

text \<open>\<open>str.isspace\<close> on one character: the white-space code points of Unicode.\<close>

definition isspace :: "nat \<Rightarrow> bool" where
  "isspace c \<longleftrightarrow>
     (9 \<le> c \<and> c \<le> 13) \<or> (28 \<le> c \<and> c \<le> 32) \<or> c = 133 \<or> c = 160 \<or> c = 5760 \<or>
     (8192 \<le> c \<and> c \<le> 8202) \<or> c = 8232 \<or> c = 8233 \<or> c = 8239 \<or> c = 8287 \<or> c = 12288"

definition strip :: "ustr \<Rightarrow> ustr" where
  "strip s = rev (dropWhile isspace (rev (dropWhile isspace s)))"

text \<open>\<open>k in t\<close> on strings is the contiguous-substring test, \<open>sublist k t\<close>.\<close>

section \<open>Relevance scorer\<close>

definition CRIME_KEYWORDS :: "ustr \<rightharpoonup> ustr list" where
  "CRIME_KEYWORDS =
     [str ''pt'' \<mapsto>
        [str ''homic'' @ [237] @ str ''dio'', str ''assassinato'', str ''roubo'', str ''furto'',
         str ''tr'' @ [225] @ str ''fico'', str ''agress'' @ [227] @ str ''o'', str ''sequestro'',
         str ''extors'' @ [227] @ str ''o'', str ''estupro'', str ''latroc'' @ [237] @ str ''nio'',
         str ''corrup'' @ [231, 227] @ str ''o'', str ''fraude'', str ''crime organizado'',
         str ''mil'' @ [237] @ str ''cia'', str ''tiroteio''],
      str ''en'' \<mapsto>
        [str ''homicide'', str ''murder'', str ''robbery'', str ''theft'', str ''trafficking'',
         str ''assault'', str ''kidnapping'', str ''extortion'', str ''rape'', str ''felony'',
         str ''corruption'', str ''fraud'', str ''organized crime'', str ''shooting'',
         str ''arson'']]"

text \<open>\<open>sum(1 for k in ks if k in t)\<close>\<close>

definition hits :: "ustr list \<Rightarrow> ustr \<Rightarrow> nat" where
  "hits ks t = length (filter (\<lambda>k. sublist k t) ks)"

definition length_norm :: "ustr \<Rightarrow> pyfloat" where
  "length_norm text = min (of_nat (length text) / 2000) 1"

definition crime_score :: "(ustr \<Rightarrow> nat \<Rightarrow> ustr) \<Rightarrow> ustr \<Rightarrow> ustr \<Rightarrow> exn + pyfloat" where
  "crime_score lower_ucs4 text lang =
     (let t = lower lower_ucs4 text in
      case CRIME_KEYWORDS lang of
        None \<Rightarrow> Inl KeyError
      | Some ks \<Rightarrow>
          Inr (min (of_nat (hits ks t) / 5) 1 * (6 / 10) + length_norm text * (4 / 10)))"

section \<open>Language detection\<close>

text \<open>
  \<open>detect\<close> is the external language detector: it returns a language code or raises.
  \<open>lang_of\<close> passes it the first 2000 characters and catches every exception.
\<close>

definition lang_of :: "(ustr \<Rightarrow> exn + ustr) \<Rightarrow> ustr \<Rightarrow> ustr" where
  "lang_of detect text =
     (case detect (take 2000 text) of
        Inr l \<Rightarrow> if prefix (str ''pt'') l then str ''pt'' else str ''en''
      | Inl _ \<Rightarrow> str ''en'')"

section \<open>Entity extraction\<close>

text \<open>
  A spaCy pipeline maps a text to its entities, each a pair of entity text and label,
  or raises. \<open>spacy_load\<close> loads a pipeline by model name or raises.
\<close>

type_synonym pipeline = "ustr \<Rightarrow> exn + (ustr \<times> ustr) list"

definition load_or :: "(ustr \<Rightarrow> exn + 'p) \<Rightarrow> ustr \<Rightarrow> ustr \<Rightarrow> exn + 'p" where
  "load_or spacy_load name fallback =
     (case spacy_load name of Inr p \<Rightarrow> Inr p | Inl _ \<Rightarrow> spacy_load fallback)"

definition load_pipelines :: "(ustr \<Rightarrow> exn + 'p) \<Rightarrow> exn + (ustr \<rightharpoonup> 'p)" where
  "load_pipelines spacy_load =
     (case load_or spacy_load (str ''en_core_web_lg'') (str ''xx_ent_wiki_sm'') of
        Inl e \<Rightarrow> Inl e
      | Inr en \<Rightarrow>
          (case load_or spacy_load (str ''pt_core_news_lg'') (str ''xx_ent_wiki_sm'') of
             Inl e \<Rightarrow> Inl e
           | Inr pt \<Rightarrow> Inr [str ''en'' \<mapsto> en, str ''pt'' \<mapsto> pt]))"

text \<open>The loop of \<open>extract_places\<close>: \<open>uniq\<close> and \<open>seen\<close> are threaded through.\<close>

fun uniq_places :: "(ustr \<Rightarrow> nat \<Rightarrow> ustr) \<Rightarrow> ustr list \<Rightarrow> ustr list \<Rightarrow> ustr set \<Rightarrow> ustr list" where
  "uniq_places lc [] uniq seen = uniq"
| "uniq_places lc (v # vals) uniq seen =
     (let k = strip v in
      if k \<noteq> [] \<and> lower lc k \<notin> seen
      then uniq_places lc vals (uniq @ [k]) (insert (lower lc k) seen)
      else uniq_places lc vals uniq seen)"

definition extract_places ::
  "(ustr \<Rightarrow> nat \<Rightarrow> ustr) \<Rightarrow> ustr \<Rightarrow> (ustr \<rightharpoonup> pipeline) \<Rightarrow> ustr \<Rightarrow> exn + ustr list" where
  "extract_places lc text nlp lang =
     (case nlp lang of
        None \<Rightarrow> Inl KeyError
      | Some p \<Rightarrow>
          (case p text of
             Inl e \<Rightarrow> Inl e
           | Inr ents \<Rightarrow>
               (let vals = map fst (filter (\<lambda>ent. snd ent \<in> {str ''GPE'', str ''LOC''}) ents)
                in Inr (take 5 (uniq_places lc vals [] {})))))"

section \<open>Ingestion of feed entries\<close>

text \<open>
  A feed entry as the feed parser delivers it: link and title may be missing, and so
  may each of the two parsed time tuples. A time tuple is represented by the UTC
  instant it denotes (whole seconds), and an ISO-8601 string by the instant it
  spells: \<open>datetime(*pub[:6], tzinfo=utc)\<close> and \<open>isoformat\<close> are the identity.
\<close>

record entry =
  e_link :: "ustr option"
  e_title :: "ustr option"
  published_parsed :: "int option"
  updated_parsed :: "int option"

record item =
  link :: ustr
  title :: ustr
  published_at :: int

text \<open>
  The cutoff after \<open>datetime.fromisoformat\<close>: a datetime with an offset denotes an
  instant; one without is naive, and comparing it with an aware datetime raises.
\<close>

datatype py_datetime = Aware int | Naive int

text \<open>\<open>since_iso.replace("Z", "+00:00")\<close>; 90 is the code point of Z.\<close>

definition replace_Z :: "ustr \<Rightarrow> ustr" where
  "replace_Z s = concat (map (\<lambda>c. if c = 90 then str ''+00:00'' else [c]) s)"

text \<open>
  \<open>dt_utc\<close> reads the clock. The clock is a function of the number of earlier
  readings, and that number is threaded through as \<open>ticks\<close>.
\<close>

definition dt_utc :: "(nat \<Rightarrow> int) \<Rightarrow> nat \<Rightarrow> int \<times> nat" where
  "dt_utc clock ticks = (clock ticks, Suc ticks)"

text \<open>\<open>a or b\<close> on optional values whose present values are all truthy.\<close>

definition py_or :: "'a option \<Rightarrow> 'a option \<Rightarrow> 'a option" where
  "py_or a b = (case a of Some x \<Rightarrow> Some x | None \<Rightarrow> b)"

text \<open>\<open>(e.get("title") or "").strip()\<close> and \<open>e.get("published_parsed") or e.get("updated_parsed")\<close>\<close>

definition entry_title :: "entry \<Rightarrow> ustr" where
  "entry_title e = strip (case e_title e of None \<Rightarrow> [] | Some t \<Rightarrow> t)"

definition entry_pub :: "entry \<Rightarrow> int option" where
  "entry_pub e = py_or (published_parsed e) (updated_parsed e)"

text \<open>The body of the inner loop of \<open>fetch_rss_items\<close>, on the pair of \<open>out\<close> and \<open>ticks\<close>.\<close>

definition entry_step ::
  "py_datetime \<Rightarrow> (nat \<Rightarrow> int) \<Rightarrow> entry \<Rightarrow> item list \<times> nat \<Rightarrow> exn + item list \<times> nat" where
  "entry_step since clock e st =
     (let out = fst st; ticks = snd st;
          lnk = e_link e;
          ttl = entry_title e;
          pub = entry_pub e
      in case lnk of
           None \<Rightarrow> Inr (out, ticks)
         | Some l \<Rightarrow>
             if l = [] \<or> ttl = [] then Inr (out, ticks)
             else (case pub of
                     Some pub_dt \<Rightarrow>
                       (case since of
                          Naive _ \<Rightarrow> Inl TypeError
                        | Aware s \<Rightarrow>
                            if pub_dt < s then Inr (out, ticks)
                            else Inr (out @ [\<lparr>link = l, title = ttl, published_at = pub_dt\<rparr>],
                                      ticks))
                   | None \<Rightarrow>
                       (let (now, ticks') = dt_utc clock ticks
                        in Inr (out @ [\<lparr>link = l, title = ttl, published_at = now\<rparr>], ticks'))))"

fun entries_loop ::
  "py_datetime \<Rightarrow> (nat \<Rightarrow> int) \<Rightarrow> entry list \<Rightarrow> item list \<times> nat \<Rightarrow> exn + item list \<times> nat" where
  "entries_loop since clock [] st = Inr st"
| "entries_loop since clock (e # es) st =
     (case entry_step since clock e st of
        Inl x \<Rightarrow> Inl x
      | Inr st' \<Rightarrow> entries_loop since clock es st')"

fun feeds_loop ::
  "(ustr \<Rightarrow> exn + entry list) \<Rightarrow> py_datetime \<Rightarrow> (nat \<Rightarrow> int) \<Rightarrow> ustr list \<Rightarrow>
     item list \<times> nat \<Rightarrow> exn + item list \<times> nat" where
  "feeds_loop parse since clock [] st = Inr st"
| "feeds_loop parse since clock (u # urls) st =
     (case parse u of
        Inl x \<Rightarrow> Inl x
      | Inr es \<Rightarrow>
          (case entries_loop since clock es st of
             Inl x \<Rightarrow> Inl x
           | Inr st' \<Rightarrow> feeds_loop parse since clock urls st'))"

text \<open>
  \<open>parse\<close> is the feed parser and \<open>fromisoformat\<close> the parser of ISO-8601 strings;
  either may raise. The result is \<open>out\<close> together with the new number of clock readings.
\<close>

definition fetch_rss_items ::
  "(ustr \<Rightarrow> exn + entry list) \<Rightarrow> (ustr \<Rightarrow> exn + py_datetime) \<Rightarrow> (nat \<Rightarrow> int) \<Rightarrow>
     ustr list \<Rightarrow> ustr \<Rightarrow> nat \<Rightarrow> exn + item list \<times> nat" where
  "fetch_rss_items parse fromisoformat clock urls since_iso ticks =
     (case fromisoformat (replace_Z since_iso) of
        Inl x \<Rightarrow> Inl x
      | Inr since \<Rightarrow> feeds_loop parse since clock urls ([], ticks))"

text \<open>
  The entries the description of the ingestion lets through: those with a link, with a
  title that is not empty once stripped, and with no time stamp or one that is not
  older than the cutoff. \<open>item_of\<close> relates such an entry to the item made of it;
  \<open>lo\<close> and \<open>hi\<close> bound the clock readings taken.
\<close>

definition admitted :: "int \<Rightarrow> entry \<Rightarrow> bool" where
  "admitted s e \<longleftrightarrow>
     (case e_link e of None \<Rightarrow> False | Some l \<Rightarrow> l \<noteq> []) \<and> entry_title e \<noteq> [] \<and>
     (case entry_pub e of None \<Rightarrow> True | Some p \<Rightarrow> s \<le> p)"

definition item_of :: "(nat \<Rightarrow> int) \<Rightarrow> nat \<Rightarrow> nat \<Rightarrow> entry \<Rightarrow> item \<Rightarrow> bool" where
  "item_of clock lo hi e it \<longleftrightarrow>
     e_link e = Some (link it) \<and> title it = entry_title e \<and>
     (case entry_pub e of
        Some p \<Rightarrow> published_at it = p
      | None \<Rightarrow> \<exists>k \<in> {lo..<hi}. published_at it = clock k)"

section \<open>Geocoding\<close>

text \<open>
  \<open>rate\<close> is the rate-limited geocoder: for a name it returns a location (latitude,
  longitude), returns nothing (also when it swallows a service error), or raises.
  The names passed to it are recorded, in order, in a log of calls.
  A float is truthy when it is not zero.
\<close>

type_synonym location = "pyfloat \<times> pyfloat"

definition truthy_location :: "location option \<Rightarrow> bool" where
  "truthy_location g = (case g of None \<Rightarrow> False | Some (lat, lon) \<Rightarrow> lat \<noteq> 0 \<and> lon \<noteq> 0)"

fun geocode_loop ::
  "(ustr \<Rightarrow> exn + location option) \<Rightarrow> ustr list \<Rightarrow> (pyfloat \<times> pyfloat \<times> ustr) list \<Rightarrow>
     ustr list \<Rightarrow> (exn + (pyfloat \<times> pyfloat \<times> ustr) list) \<times> ustr list" where
  "geocode_loop rate [] out calls = (Inr out, calls)"
| "geocode_loop rate (n # names) out calls =
     (case rate n of
        Inl x \<Rightarrow> (Inl x, calls @ [n])
      | Inr g \<Rightarrow>
          if truthy_location g
          then geocode_loop rate names (out @ [(fst (the g), snd (the g), n)]) (calls @ [n])
          else geocode_loop rate names out (calls @ [n]))"

definition geocode_places ::
  "(ustr \<Rightarrow> exn + location option) \<Rightarrow> ustr list \<Rightarrow> ustr list \<Rightarrow>
     (exn + (pyfloat \<times> pyfloat \<times> ustr) list) \<times> ustr list" where
  "geocode_places rate names calls = geocode_loop rate names [] calls"

text \<open>\<open>if not geos: continue\<close> and \<open>geos[0]\<close>: the first location, if there is one.\<close>

definition first_geo :: "'a list \<Rightarrow> 'a option" where
  "first_geo geos = (case geos of [] \<Rightarrow> None | x # _ \<Rightarrow> Some x)"

section \<open>Signatures and the near-duplicate index\<close>

text \<open>\<open>str.encode\<close>: UTF-8, which refuses surrogate code points.\<close>

definition encode_char :: "nat \<Rightarrow> exn + nat list" where
  "encode_char c =
     (if c < 128 then Inr [c]
      else if c < 2048 then Inr [192 + c div 64, 128 + c mod 64]
      else if 55296 \<le> c \<and> c \<le> 57343 then Inl UnicodeEncodeError
      else if c < 65536 then Inr [224 + c div 4096, 128 + (c div 64) mod 64, 128 + c mod 64]
      else if c < 1114112
        then Inr [240 + c div 262144, 128 + (c div 4096) mod 64, 128 + (c div 64) mod 64,
                  128 + c mod 64]
      else Inl UnicodeEncodeError)"

fun encode :: "ustr \<Rightarrow> exn + nat list" where
  "encode [] = Inr []"
| "encode (c # cs) =
     (case encode_char c of
        Inl x \<Rightarrow> Inl x
      | Inr bs \<Rightarrow> (case encode cs of Inl x \<Rightarrow> Inl x | Inr rest \<Rightarrow> Inr (bs @ rest)))"

text \<open>
  \<open>re.findall(r"\w{5,}", s)\<close> scans from the left: at a position where at least five
  word characters follow, the greedy match takes the whole run and the scan goes on
  behind it; elsewhere the scan moves one character on. A word character is an
  alphanumeric character of Unicode (the table \<open>isalnum\<close>, a parameter) or the
  underscore, code point 95.
\<close>

definition is_word :: "(nat \<Rightarrow> bool) \<Rightarrow> nat \<Rightarrow> bool" where
  "is_word isalnum c \<longleftrightarrow> isalnum c \<or> c = 95"

function findall_w5 :: "(nat \<Rightarrow> bool) \<Rightarrow> ustr \<Rightarrow> ustr list" where
  "findall_w5 w [] = []"
| "findall_w5 w (c # cs) =
     (if 5 \<le> length (takeWhile w (c # cs))
      then takeWhile w (c # cs) # findall_w5 w (dropWhile w (c # cs))
      else findall_w5 w cs)"
  by pat_completeness auto
termination
  by (relation "measure (\<lambda>(w, s). length s)")
     (auto simp: length_dropWhile_le less_Suc_eq_le split: if_splits)

definition ascii_isalnum :: "nat \<Rightarrow> bool" where
  "ascii_isalnum c \<longleftrightarrow> (48 \<le> c \<and> c \<le> 57) \<or> (65 \<le> c \<and> c \<le> 90) \<or> (97 \<le> c \<and> c \<le> 122)"

text \<open>
  The set of tokens, as a list without repetitions; the source iterates over the set
  in an order of the interpreter's choosing.
\<close>

definition tokens :: "(ustr \<Rightarrow> nat \<Rightarrow> ustr) \<Rightarrow> (nat \<Rightarrow> bool) \<Rightarrow> ustr \<Rightarrow> ustr list" where
  "tokens lc isalnum text = remdups (findall_w5 (is_word isalnum) (lower lc text))"

text \<open>
  A MinHash object is its vector of hash values, \<open>num_perm\<close> of them, each initially
  the largest 32-bit value. \<open>update\<close> is the library's update of that vector with the
  bytes of one token (SHA-1 and the seeded permutations are inside it); it is a
  parameter.
\<close>

type_synonym minhash = "nat list"

definition max_hash :: nat where
  "max_hash = 2 ^ 32 - 1"

definition MinHash :: "nat \<Rightarrow> minhash" where
  "MinHash num_perm = replicate num_perm max_hash"

fun update_all :: "(minhash \<Rightarrow> nat list \<Rightarrow> minhash) \<Rightarrow> ustr list \<Rightarrow> minhash \<Rightarrow> exn + minhash" where
  "update_all update [] m = Inr m"
| "update_all update (t # ts) m =
     (case encode t of
        Inl x \<Rightarrow> Inl x
      | Inr bs \<Rightarrow> update_all update ts (update m bs))"

definition text_signature ::
  "(ustr \<Rightarrow> nat \<Rightarrow> ustr) \<Rightarrow> (nat \<Rightarrow> bool) \<Rightarrow> (minhash \<Rightarrow> nat list \<Rightarrow> minhash) \<Rightarrow> nat \<Rightarrow> ustr \<Rightarrow>
     exn + minhash" where
  "text_signature lc isalnum update num_perm text =
     update_all update (tokens lc isalnum text) (MinHash num_perm)"

text \<open>
  The index of the library: \<open>b\<close> bands of \<open>r\<close> consecutive hash values, one table per
  band from the band's values to the set of keys stored under them, and the set of
  all keys. The library derives \<open>b\<close> and \<open>r\<close> from the threshold and \<open>num_perm\<close>; here
  they are given. Inserting refuses a signature of the wrong length and a key that is
  already stored; querying refuses a signature of the wrong length and returns the
  keys that share a whole band with the signature.
\<close>

record lsh =
  lsh_b :: nat
  lsh_r :: nat
  lsh_h :: nat
  hashtables :: "(nat list \<Rightarrow> ustr set) list"
  lsh_keys :: "ustr set"

definition build_lsh :: "nat \<Rightarrow> nat \<Rightarrow> nat \<Rightarrow> lsh" where
  "build_lsh b r num_perm =
     \<lparr>lsh_b = b, lsh_r = r, lsh_h = num_perm,
      hashtables = replicate b (\<lambda>_. {}), lsh_keys = {}\<rparr>"

definition band :: "nat \<Rightarrow> nat \<Rightarrow> minhash \<Rightarrow> nat list" where
  "band r i m = take r (drop (i * r) m)"

definition lsh_insert :: "ustr \<Rightarrow> minhash \<Rightarrow> lsh \<Rightarrow> exn + lsh" where
  "lsh_insert key m l =
     (if length m \<noteq> lsh_h l then Inl ValueError
      else if key \<in> lsh_keys l then Inl ValueError
      else Inr (l\<lparr>lsh_keys := insert key (lsh_keys l),
                  hashtables :=
                    map (\<lambda>(i, tbl). tbl(band (lsh_r l) i m := insert key (tbl (band (lsh_r l) i m))))
                      (zip [0..<lsh_b l] (hashtables l))\<rparr>))"

definition lsh_query :: "minhash \<Rightarrow> lsh \<Rightarrow> exn + ustr set" where
  "lsh_query m l =
     (if length m \<noteq> lsh_h l then Inl ValueError
      else Inr (\<Union>(i, tbl) \<in> set (zip [0..<lsh_b l] (hashtables l)). tbl (band (lsh_r l) i m)))"

section \<open>Event store and aggregation\<close>

text \<open>
  A row of table \<open>news_events\<close> without its \<open>id\<close>. The table is the list of its rows,
  each with the \<open>id\<close> the store gave it; a database that has no such table yet is
  \<open>None\<close>.
\<close>

record event =
  ev_link :: ustr
  ev_title :: ustr
  ev_published_at :: int
  ev_lang :: ustr
  ev_score :: pyfloat
  ev_lat :: pyfloat
  ev_lon :: pyfloat
  ev_place :: ustr
  ev_created_at :: int

type_synonym table = "(nat \<times> event) list"

definition ensure_db :: "table option \<Rightarrow> table option" where
  "ensure_db db = (case db of None \<Rightarrow> Some [] | Some t \<Rightarrow> Some t)"

text \<open>
  \<open>INSERT OR IGNORE\<close> of one row: a row whose link is already in the table violates
  \<open>UNIQUE\<close> and is skipped; otherwise the row is added under the next \<open>id\<close>.
\<close>

definition next_id :: "table \<Rightarrow> nat" where
  "next_id t = Suc (fold max (map fst t) 0)"

definition links :: "table \<Rightarrow> ustr list" where
  "links t = map (\<lambda>row. ev_link (snd row)) t"

definition insert_or_ignore :: "event \<Rightarrow> table \<Rightarrow> table" where
  "insert_or_ignore e t =
     (if ev_link e \<in> set (links t) then t else t @ [(next_id t, e)])"

definition save_events :: "event list \<Rightarrow> table option \<Rightarrow> exn + table option" where
  "save_events rows db =
     (case db of
        None \<Rightarrow> Inl OperationalError
      | Some t \<Rightarrow> Inr (Some (fold insert_or_ignore rows t)))"

text \<open>
  \<open>round(x, 3)\<close> of the store: to the nearest multiple of one thousandth, a tie going
  away from zero.
\<close>

definition round3 :: "pyfloat \<Rightarrow> pyfloat" where
  "round3 x =
     (if x < 0 then - (of_int \<lfloor>- x * 1000 + 1 / 2\<rfloor> / 1000)
      else of_int \<lfloor>x * 1000 + 1 / 2\<rfloor> / 1000)"

definition bucket :: "nat \<times> event \<Rightarrow> pyfloat \<times> pyfloat" where
  "bucket row = (round3 (ev_lat (snd row)), round3 (ev_lon (snd row)))"

text \<open>
  \<open>GROUP BY\<close> with \<open>COUNT(*)\<close>: one row per bucket, with the number of events in it.
  The store fixes no order of the groups.
\<close>

definition aggregate :: "table option \<Rightarrow> exn + (pyfloat \<times> pyfloat \<times> nat) list" where
  "aggregate db =
     (case db of
        None \<Rightarrow> Inl OperationalError
      | Some t \<Rightarrow>
          Inr (map (\<lambda>k. (fst k, snd k, length (filter (\<lambda>row. bucket row = k) t)))
                 (remdups (map bucket t))))"

section \<open>Pipeline\<close>

text \<open>
  The external collaborators and the constants of the libraries, collected: the text
  extraction, the language detector, the tables of the interpreter, the update of a
  MinHash, SHA-1 as a hexadecimal string, the band layout of the index, the
  geocoder, the clock, the loader of spaCy models, the feed parser, the parser of
  ISO-8601 strings and the renderer of the heat map.
\<close>

record env =
  env_fetch :: "ustr \<Rightarrow> exn + ustr"
  env_detect :: "ustr \<Rightarrow> exn + ustr"
  env_lower :: "ustr \<Rightarrow> nat \<Rightarrow> ustr"
  env_isalnum :: "nat \<Rightarrow> bool"
  env_update :: "minhash \<Rightarrow> nat list \<Rightarrow> minhash"
  env_sha1 :: "nat list \<Rightarrow> ustr"
  env_b :: nat
  env_r :: nat
  env_rate :: "ustr \<Rightarrow> exn + location option"
  env_clock :: "nat \<Rightarrow> int"
  env_spacy :: "ustr \<Rightarrow> exn + pipeline"
  env_parse :: "ustr \<Rightarrow> exn + entry list"
  env_fromiso :: "ustr \<Rightarrow> exn + py_datetime"
  env_heatmap :: "(pyfloat \<times> pyfloat \<times> nat) list \<Rightarrow> exn + ustr"

text \<open>What the loop of \<open>run_pipeline\<close> changes.\<close>

record run_state =
  rs_lsh :: lsh
  sig_index :: "ustr \<rightharpoonup> minhash"
  to_save :: "event list"
  rs_ticks :: nat
  geo_calls :: "ustr list"

text \<open>
  The body of the \<open>try\<close> block, in two parts. Its result is the exception it raises
  or nothing, together with the state as the statements executed so far left it.
  The second part starts behind the insertion into the index.
\<close>

definition place_stage ::
  "env \<Rightarrow> (ustr \<rightharpoonup> pipeline) \<Rightarrow> item \<Rightarrow> ustr \<Rightarrow> ustr \<Rightarrow> pyfloat \<Rightarrow> run_state \<Rightarrow>
     (exn + unit) \<times> run_state" where
  "place_stage env nlp it text lang s st =
     (case extract_places (env_lower env) text nlp lang of
        Inl x \<Rightarrow> (Inl x, st)
      | Inr places \<Rightarrow>
          (case geocode_places (env_rate env) places (geo_calls st) of
             (Inl x, calls) \<Rightarrow> (Inl x, st\<lparr>geo_calls := calls\<rparr>)
           | (Inr geos, calls) \<Rightarrow>
               (case first_geo geos of
                  None \<Rightarrow> (Inr (), st\<lparr>geo_calls := calls\<rparr>)
                | Some (lat, lon, place) \<Rightarrow>
                    (let (now, ticks') = dt_utc (env_clock env) (rs_ticks st)
                     in (Inr (),
                         st\<lparr>geo_calls := calls,
                            to_save := to_save st @
                              [\<lparr>ev_link = link it, ev_title = title it,
                                ev_published_at = published_at it, ev_lang = lang,
                                ev_score = s, ev_lat = lat, ev_lon = lon, ev_place = place,
                                ev_created_at = now\<rparr>],
                            rs_ticks := ticks'\<rparr>)))))"

definition item_body ::
  "env \<Rightarrow> (ustr \<rightharpoonup> pipeline) \<Rightarrow> item \<Rightarrow> run_state \<Rightarrow> (exn + unit) \<times> run_state" where
  "item_body env nlp it st =
     (case env_fetch env (link it) of
        Inl x \<Rightarrow> (Inl x, st)
      | Inr text \<Rightarrow>
          (let lang = lang_of (env_detect env) text
           in case crime_score (env_lower env) text lang of
                Inl x \<Rightarrow> (Inl x, st)
              | Inr s \<Rightarrow>
                  if s < 6 / 10 then (Inr (), st)
                  else (case text_signature (env_lower env) (env_isalnum env) (env_update env)
                               128 text of
                          Inl x \<Rightarrow> (Inl x, st)
                        | Inr sig \<Rightarrow>
                            (case lsh_query sig (rs_lsh st) of
                               Inl x \<Rightarrow> (Inl x, st)
                             | Inr cands \<Rightarrow>
                                 if cands \<noteq> {} then (Inr (), st)
                                 else (case encode (link it) of
                                         Inl x \<Rightarrow> (Inl x, st)
                                       | Inr bs \<Rightarrow>
                                           (case lsh_insert (env_sha1 env bs) sig (rs_lsh st) of
                                              Inl x \<Rightarrow> (Inl x, st)
                                            | Inr l' \<Rightarrow>
                                                place_stage env nlp it text lang s
                                                  (st\<lparr>rs_lsh := l',
                                                      sig_index :=
                                                        (sig_index st)(env_sha1 env bs \<mapsto> sig)\<rparr>)))))))"

text \<open>\<open>except Exception: continue\<close>: the exception is dropped, the state stays.\<close>

definition process_item :: "env \<Rightarrow> (ustr \<rightharpoonup> pipeline) \<Rightarrow> item \<Rightarrow> run_state \<Rightarrow> run_state" where
  "process_item env nlp it st = snd (item_body env nlp it st)"



section \<open>A sample environment\<close>

text \<open>
  Toy collaborators to run the definitions on: the page \<open>bad\<close> cannot be fetched and
  every other page has the same text; the detector answers \<open>en\<close>; the update of a
  MinHash takes the sum of the bytes of a token for its hash; the geocoder knows
  Lisboa; every pipeline finds the place Lisboa and a date; the feed has three
  entries.
\<close>

definition sample_text :: ustr where
  "sample_text = str ''Murder, theft, fraud, arson and robbery in Lisboa''"

definition sample_env :: env where
  "sample_env =
     \<lparr>env_fetch = (\<lambda>l. if l = str ''bad'' then Inl (Raised 1) else Inr sample_text),
      env_detect = (\<lambda>_. Inr (str ''en'')),
      env_lower = ascii_lower_ucs4,
      env_isalnum = ascii_isalnum,
      env_update = (\<lambda>m bs. map (min (sum_list bs)) m),
      env_sha1 = (\<lambda>bs. bs),
      env_b = 8,
      env_r = 16,
      env_rate = (\<lambda>n. Inr (if n = str ''Lisboa'' then Some (387 / 10, - 91 / 10) else None)),
      env_clock = (\<lambda>k. 1000 + int k),
      env_spacy = (\<lambda>_. Inr (\<lambda>_. Inr [(str ''Lisboa'', str ''GPE''), (str ''Monday'', str ''DATE'')])),
      env_parse = (\<lambda>_. Inr
         [\<lparr>e_link = Some (str ''bad''), e_title = Some (str ''Bad''), published_parsed = Some 200,
           updated_parsed = None\<rparr>,
          \<lparr>e_link = Some (str ''good''), e_title = Some (str ''Good''), published_parsed = Some 300,
           updated_parsed = None\<rparr>,
          \<lparr>e_link = Some (str ''copy''), e_title = Some (str ''Copy''), published_parsed = Some 400,
           updated_parsed = None\<rparr>]),
      env_fromiso = (\<lambda>_. Inr (Aware 100)),
      env_heatmap = (\<lambda>_. Inr (str ''heatmap.html''))\<rparr>"

section \<open>Properties of the scorer\<close>

lemma lower_Nil: "lower lc [] = []"
  by (simp add: lower_def)

lemma hits_Nil_text: "[] \<notin> set ks \<Longrightarrow> hits ks [] = 0"
  by (induction ks) (auto simp: hits_def)

lemma keywords_supported:
  "CRIME_KEYWORDS lang \<noteq> None \<longleftrightarrow> lang = str ''pt'' \<or> lang = str ''en''"
  by (auto simp: CRIME_KEYWORDS_def)

lemma keywords_nonempty: "CRIME_KEYWORDS lang = Some ks \<Longrightarrow> [] \<notin> set ks"
  by (auto simp: CRIME_KEYWORDS_def str_def split: if_splits)

lemma score_term_bounds:
  fixes h :: nat and n :: nat
  shows "0 \<le> min (of_nat h / 5) (1::rat) * (6 / 10) + min (of_nat n / 2000) 1 * (4 / 10)"
    and "min (of_nat h / 5) (1::rat) * (6 / 10) + min (of_nat n / 2000) 1 * (4 / 10) \<le> 1"
proof -
  have a: "0 \<le> min (of_nat h / 5) (1::rat)" "min (of_nat h / 5) (1::rat) \<le> 1" by simp_all
  have b: "0 \<le> min (of_nat n / 2000) (1::rat)" "min (of_nat n / 2000) (1::rat) \<le> 1" by simp_all
  from a b show "0 \<le> min (of_nat h / 5) (1::rat) * (6 / 10) + min (of_nat n / 2000) 1 * (4 / 10)"
    by simp
  from a b show "min (of_nat h / 5) (1::rat) * (6 / 10) + min (of_nat n / 2000) 1 * (4 / 10) \<le> 1"
    by linarith
qed

text \<open>
  C4. For every text and each of the two supported language codes, \<open>crime_score\<close>
  returns a value (no exception) that lies in the closed interval from 0 to 1, and on
  the empty text it returns exactly 0.
\<close>

theorem crime_score_range:
  assumes "lang = str ''pt'' \<or> lang = str ''en''"
  shows "(\<exists>s. crime_score lc text lang = Inr s \<and> 0 \<le> s \<and> s \<le> 1) \<and>
         crime_score lc [] lang = Inr 0"
proof -
  from assms obtain ks where ks: "CRIME_KEYWORDS lang = Some ks"
    using keywords_supported [of lang] by auto
  have "\<exists>s. crime_score lc text lang = Inr s \<and> 0 \<le> s \<and> s \<le> 1"
    using ks score_term_bounds [of "hits ks (lower lc text)" "length text"]
    by (simp add: crime_score_def length_norm_def)
  moreover have "crime_score lc [] lang = Inr 0"
    using ks hits_Nil_text [OF keywords_nonempty [OF ks]]
    by (simp add: crime_score_def length_norm_def lower_Nil)
  ultimately show ?thesis by blast
qed

theorem crime_score_range_witness:
  "(str ''en'' = str ''pt'' \<or> str ''en'' = str ''en'') \<and>
   (\<exists>s. crime_score ascii_lower_ucs4 (str ''Murder and THEFT'') (str ''en'') = Inr s \<and>
        0 \<le> s \<and> s \<le> 1) \<and>
   crime_score ascii_lower_ucs4 [] (str ''en'') = Inr 0"
  using crime_score_range [of "str ''en''" ascii_lower_ucs4 "str ''Murder and THEFT''"]
  by simp

text \<open>
  C7. \<open>crime_score\<close> is monotonic: for one language, a text that matches at least as
  many keywords as another and is at least as long has a score that is at least the
  other's.
\<close>

theorem crime_score_monotone:
  assumes "CRIME_KEYWORDS lang = Some ks"
    and "hits ks (lower lc a) \<le> hits ks (lower lc b)"
    and "length a \<le> length b"
  shows "\<exists>sa sb. crime_score lc a lang = Inr sa \<and> crime_score lc b lang = Inr sb \<and> sa \<le> sb"
proof -
  have h: "min (of_nat (hits ks (lower lc a)) / 5) (1::rat)
             \<le> min (of_nat (hits ks (lower lc b)) / 5) 1"
    using assms(2) by (simp add: min_le_iff_disj divide_right_mono)
  have n: "length_norm a \<le> length_norm b"
    using assms(3) by (simp add: length_norm_def min_le_iff_disj divide_right_mono)
  have "min (of_nat (hits ks (lower lc a)) / 5) (1::rat) * (6 / 10) + length_norm a * (4 / 10)
          \<le> min (of_nat (hits ks (lower lc b)) / 5) 1 * (6 / 10) + length_norm b * (4 / 10)"
    using h n by linarith
  then show ?thesis
    using assms(1) by (simp add: crime_score_def)
qed

theorem crime_score_monotone_witness:
  "crime_score ascii_lower_ucs4 (str ''a theft'') (str ''en'') = Inr (607 / 5000) \<and>
   crime_score ascii_lower_ucs4 (str ''Murder and THEFT'') (str ''en'') = Inr (152 / 625) \<and>
   (\<exists>sa sb. crime_score ascii_lower_ucs4 (str ''a theft'') (str ''en'') = Inr sa \<and>
      crime_score ascii_lower_ucs4 (str ''Murder and THEFT'') (str ''en'') = Inr sb \<and> sa \<le> sb)"
proof -
  have k: "CRIME_KEYWORDS (str ''en'') = Some (the (CRIME_KEYWORDS (str ''en'')))"
    by (simp add: CRIME_KEYWORDS_def)
  have h: "hits (the (CRIME_KEYWORDS (str ''en''))) (lower ascii_lower_ucs4 (str ''a theft''))
             \<le> hits (the (CRIME_KEYWORDS (str ''en'')))
                  (lower ascii_lower_ucs4 (str ''Murder and THEFT''))"
    by code_simp
  have n: "length (str ''a theft'') \<le> length (str ''Murder and THEFT'')"
    by (simp add: str_def)
  have a: "crime_score ascii_lower_ucs4 (str ''a theft'') (str ''en'') = Inr (607 / 5000)"
    by code_simp
  have b: "crime_score ascii_lower_ucs4 (str ''Murder and THEFT'') (str ''en'') = Inr (152 / 625)"
    by code_simp
  from crime_score_monotone [OF k h n] a b show ?thesis by blast
qed

section \<open>Properties of language detection\<close>

lemma lang_of_cases: "lang_of detect text = str ''pt'' \<or> lang_of detect text = str ''en''"
  by (simp add: lang_of_def split: sum.splits)

lemma load_pipelines_keys:
  "load_pipelines spacy_load = Inr nlp \<Longrightarrow> nlp (str ''pt'') \<noteq> None \<and> nlp (str ''en'') \<noteq> None"
  by (auto simp: load_pipelines_def split: sum.splits)

text \<open>
  C9. \<open>lang_of\<close> returns \<open>pt\<close> or \<open>en\<close> on every text, whatever the detector does, and
  \<open>en\<close> when the detector raises or returns a code that does not start with \<open>pt\<close>.
  Hence with a language from \<open>lang_of\<close> the keyword table has an entry, so
  \<open>crime_score\<close> returns a score, and the table of loaded pipelines has an entry, so
  \<open>extract_places\<close> raises only what the pipeline itself raises.
\<close>

theorem lang_of_total:
  "(lang_of detect text = str ''pt'' \<or> lang_of detect text = str ''en'') \<and>
   (\<forall>x. detect (take 2000 text) = Inl x \<longrightarrow> lang_of detect text = str ''en'') \<and>
   (\<forall>l. detect (take 2000 text) = Inr l \<and> \<not> prefix (str ''pt'') l \<longrightarrow>
        lang_of detect text = str ''en'') \<and>
   (\<exists>s. crime_score lc t (lang_of detect text) = Inr s) \<and>
   (\<forall>nlp. load_pipelines spacy_load = Inr nlp \<longrightarrow>
      (\<exists>p. nlp (lang_of detect text) = Some p \<and>
           (\<forall>x. extract_places lc t nlp (lang_of detect text) = Inl x \<longrightarrow> p t = Inl x)))"
proof -
  have 1: "lang_of detect text = str ''pt'' \<or> lang_of detect text = str ''en''"
    by (rule lang_of_cases)
  have 2: "\<forall>x. detect (take 2000 text) = Inl x \<longrightarrow> lang_of detect text = str ''en''"
    by (simp add: lang_of_def)
  have 3: "\<forall>l. detect (take 2000 text) = Inr l \<and> \<not> prefix (str ''pt'') l \<longrightarrow>
             lang_of detect text = str ''en''"
    by (simp add: lang_of_def)
  obtain ks where ks: "CRIME_KEYWORDS (lang_of detect text) = Some ks"
    using 1 keywords_supported [of "lang_of detect text"] by auto
  have 4: "\<exists>s. crime_score lc t (lang_of detect text) = Inr s"
    using ks by (simp add: crime_score_def)
  have 5: "\<forall>nlp. load_pipelines spacy_load = Inr nlp \<longrightarrow>
      (\<exists>p. nlp (lang_of detect text) = Some p \<and>
           (\<forall>x. extract_places lc t nlp (lang_of detect text) = Inl x \<longrightarrow> p t = Inl x))"
  proof (intro allI impI)
    fix nlp :: "ustr \<rightharpoonup> pipeline"
    assume "load_pipelines spacy_load = Inr nlp"
    then have "nlp (lang_of detect text) \<noteq> None"
      using load_pipelines_keys [of spacy_load nlp] 1 by auto
    then obtain p where p: "nlp (lang_of detect text) = Some p" by auto
    have "\<forall>x. extract_places lc t nlp (lang_of detect text) = Inl x \<longrightarrow> p t = Inl x"
      using p by (auto simp: extract_places_def Let_def split: sum.splits)
    with p show "\<exists>p. nlp (lang_of detect text) = Some p \<and>
           (\<forall>x. extract_places lc t nlp (lang_of detect text) = Inl x \<longrightarrow> p t = Inl x)"
      by blast
  qed
  from 1 2 3 4 5 show ?thesis by blast
qed

text \<open>
  The detector raises on one text and answers \<open>fr\<close> on another; a loader that knows
  every model gives a pipeline without entities.
\<close>

theorem lang_of_total_witness:
  "(\<lambda>_. Inl (Raised 0) :: exn + ustr) (take 2000 (str ''bom dia'')) = Inl (Raised 0) \<and>
   lang_of (\<lambda>_. Inl (Raised 0)) (str ''bom dia'') = str ''en'' \<and>
   (\<lambda>_. Inr (str ''fr'') :: exn + ustr) (take 2000 (str ''bonjour'')) = Inr (str ''fr'') \<and>
   \<not> prefix (str ''pt'') (str ''fr'') \<and>
   lang_of (\<lambda>_. Inr (str ''fr'')) (str ''bonjour'') = str ''en'' \<and>
   (\<exists>s. crime_score ascii_lower_ucs4 (str ''bonjour'')
          (lang_of (\<lambda>_. Inr (str ''fr'')) (str ''bonjour'')) = Inr s) \<and>
   (\<exists>nlp p. load_pipelines (\<lambda>_. Inr (\<lambda>_. Inr [])) = Inr nlp \<and>
      nlp (lang_of (\<lambda>_. Inr (str ''fr'')) (str ''bonjour'')) = Some (p :: pipeline))"
proof -
  have l: "load_pipelines (\<lambda>_. Inr (\<lambda>_. Inr [])) =
             Inr [str ''en'' \<mapsto> (\<lambda>_. Inr []) :: pipeline, str ''pt'' \<mapsto> (\<lambda>_. Inr [])]"
    by (simp add: load_pipelines_def load_or_def)
  have f: "\<not> prefix (str ''pt'') (str ''fr'')"
    by (simp add: str_def)
  from lang_of_total [of "\<lambda>_. Inl (Raised 0)" "str ''bom dia''" ascii_lower_ucs4 "str ''bom dia''"
      "\<lambda>_. Inr (\<lambda>_. Inr [])"]
  have a: "lang_of (\<lambda>_. Inl (Raised 0)) (str ''bom dia'') = str ''en''"
    by blast
  from lang_of_total [of "\<lambda>_. Inr (str ''fr'')" "str ''bonjour''" ascii_lower_ucs4 "str ''bonjour''"
      "\<lambda>_. Inr (\<lambda>_. Inr [])"] f l
  have b: "lang_of (\<lambda>_. Inr (str ''fr'')) (str ''bonjour'') = str ''en'' \<and>
      (\<exists>s. crime_score ascii_lower_ucs4 (str ''bonjour'')
          (lang_of (\<lambda>_. Inr (str ''fr'')) (str ''bonjour'')) = Inr s) \<and>
      (\<exists>p. [str ''en'' \<mapsto> (\<lambda>_. Inr []) :: pipeline, str ''pt'' \<mapsto> (\<lambda>_. Inr [])]
            (lang_of (\<lambda>_. Inr (str ''fr'')) (str ''bonjour'')) = Some p)"
    by blast
  from a b f l show ?thesis by blast
qed

section \<open>Properties of the event store\<close>

lemma links_insert_or_ignore:
  "links (insert_or_ignore e t) =
     (if ev_link e \<in> set (links t) then links t else links t @ [ev_link e])"
  by (simp add: insert_or_ignore_def links_def)

lemma distinct_insert_or_ignore:
  "distinct (links t) \<Longrightarrow> distinct (links (insert_or_ignore e t))"
  by (simp add: links_insert_or_ignore)

lemma distinct_fold_insert:
  "distinct (links t) \<Longrightarrow> distinct (links (fold insert_or_ignore rows t))"
  by (induction rows arbitrary: t) (simp_all add: distinct_insert_or_ignore)

lemma insert_known_link: "ev_link e \<in> set (links t) \<Longrightarrow> insert_or_ignore e t = t"
  by (simp add: insert_or_ignore_def)

text \<open>
  C3. On a table without the link, saving two events with that same link stores the
  first one and ignores the second, without an error: exactly one row has the link
  and it carries the first event. Saving the second event later changes nothing
  either. Whatever rows are saved, a table with at most one row per link keeps at most
  one row per link.
\<close>

theorem first_write_wins:
  assumes "ev_link e1 = ev_link e2" and "ev_link e1 \<notin> set (links t)"
    and "distinct (links t)"
  shows "save_events [e1, e2] (Some t) = Inr (Some (t @ [(next_id t, e1)])) \<and>
         filter (\<lambda>row. ev_link (snd row) = ev_link e1) (t @ [(next_id t, e1)])
           = [(next_id t, e1)] \<and>
         save_events [e2] (Some (t @ [(next_id t, e1)])) = Inr (Some (t @ [(next_id t, e1)])) \<and>
         (\<exists>t'. save_events rows (Some t) = Inr (Some t') \<and> distinct (links t'))"
proof -
  have 1: "insert_or_ignore e1 t = t @ [(next_id t, e1)]"
    using assms(2) by (simp add: insert_or_ignore_def)
  have 2: "insert_or_ignore e2 (t @ [(next_id t, e1)]) = t @ [(next_id t, e1)]"
    using assms(1) by (intro insert_known_link) (simp add: links_def)
  have 3: "filter (\<lambda>row. ev_link (snd row) = ev_link e1) t = []"
    using assms(2) by (force simp: links_def filter_empty_conv image_iff)
  have 4: "distinct (links (fold insert_or_ignore rows t))"
    using assms(3) by (rule distinct_fold_insert)
  show ?thesis
    using 1 2 3 4 by (simp add: save_events_def)
qed

theorem first_write_wins_witness:
  "save_events
     [\<lparr>ev_link = str ''u'', ev_title = str ''first'', ev_published_at = 1, ev_lang = str ''en'',
       ev_score = 1, ev_lat = 1, ev_lon = 2, ev_place = str ''A'', ev_created_at = 5\<rparr>,
      \<lparr>ev_link = str ''u'', ev_title = str ''second'', ev_published_at = 2, ev_lang = str ''pt'',
       ev_score = 3 / 5, ev_lat = 3, ev_lon = 4, ev_place = str ''B'', ev_created_at = 6\<rparr>]
     (ensure_db None)
   = Inr (Some [(1,
       \<lparr>ev_link = str ''u'', ev_title = str ''first'', ev_published_at = 1, ev_lang = str ''en'',
        ev_score = 1, ev_lat = 1, ev_lon = 2, ev_place = str ''A'', ev_created_at = 5\<rparr>)])"
  using first_write_wins
    [of "\<lparr>ev_link = str ''u'', ev_title = str ''first'', ev_published_at = 1,
          ev_lang = str ''en'', ev_score = 1, ev_lat = 1, ev_lon = 2, ev_place = str ''A'',
          ev_created_at = 5\<rparr>"
        "\<lparr>ev_link = str ''u'', ev_title = str ''second'', ev_published_at = 2,
          ev_lang = str ''pt'', ev_score = 3 / 5, ev_lat = 3, ev_lon = 4, ev_place = str ''B'',
          ev_created_at = 6\<rparr>"
        "[]" "[]"]
  by (simp add: links_def next_id_def ensure_db_def)

section \<open>Properties of the aggregation\<close>

text \<open>
  C1, as the program has it. Of two stored events, \<open>aggregate\<close> rounds latitude and
  longitude to three decimals; it reports one point of count 2 when both rounded
  coordinates coincide and two points of count 1 otherwise. The coordinates
  1.23456 and 1.23449 round to 1.235 and 1.234, and 9.87654 and 9.87649 round to
  9.877 and 9.876.
\<close>

theorem aggregate_two_events:
  "aggregate (Some [(i, e1), (j, e2)]) =
     Inr (if round3 (ev_lat e1) = round3 (ev_lat e2) \<and> round3 (ev_lon e1) = round3 (ev_lon e2)
          then [(round3 (ev_lat e2), round3 (ev_lon e2), 2)]
          else [(round3 (ev_lat e1), round3 (ev_lon e1), 1),
                (round3 (ev_lat e2), round3 (ev_lon e2), 1)]) \<and>
   round3 (123456 / 100000) = 1235 / 1000 \<and> round3 (123449 / 100000) = 1234 / 1000 \<and>
   round3 (987654 / 100000) = 9877 / 1000 \<and> round3 (987649 / 100000) = 9876 / 1000"
proof -
  have r: "round3 (123456 / 100000) = 1235 / 1000" "round3 (123449 / 100000) = 1234 / 1000"
    "round3 (987654 / 100000) = 9877 / 1000" "round3 (987649 / 100000) = 9876 / 1000"
    unfolding round3_def by (simp_all add: floor_eq_iff)
  have "aggregate (Some [(i, e1), (j, e2)]) =
     Inr (if round3 (ev_lat e1) = round3 (ev_lat e2) \<and> round3 (ev_lon e1) = round3 (ev_lon e2)
          then [(round3 (ev_lat e2), round3 (ev_lon e2), 2)]
          else [(round3 (ev_lat e1), round3 (ev_lon e1), 1),
                (round3 (ev_lat e2), round3 (ev_lon e2), 1)])"
    by (auto simp: aggregate_def bucket_def)
  with r show ?thesis by blast
qed

text \<open>Two events in one bucket: 1.23461 and 9.87651 round to 1.235 and 9.877 as well.\<close>

theorem aggregate_two_events_witness:
  "aggregate (Some [(1, \<lparr>ev_link = str ''a'', ev_title = str ''t'', ev_published_at = 0, ev_lang = str ''en'',
          ev_score = 1, ev_lat = 123456 / 100000, ev_lon = 987654 / 100000, ev_place = str ''p'',
          ev_created_at = 0\<rparr>),
      (2, \<lparr>ev_link = str ''c'', ev_title = str ''t'', ev_published_at = 0, ev_lang = str ''en'',
          ev_score = 1, ev_lat = 123461 / 100000, ev_lon = 987651 / 100000, ev_place = str ''p'',
          ev_created_at = 0\<rparr>)])
   = Inr [(1235 / 1000, 9877 / 1000, 2)]"
proof -
  have r: "round3 (123461 / 100000) = 1235 / 1000" "round3 (987651 / 100000) = 9877 / 1000"
    unfolding round3_def by (simp_all add: floor_eq_iff)
  show ?thesis
    using aggregate_two_events [of 1 "\<lparr>ev_link = str ''a'', ev_title = str ''t'', ev_published_at = 0, ev_lang = str ''en'',
          ev_score = 1, ev_lat = 123456 / 100000, ev_lon = 987654 / 100000, ev_place = str ''p'',
          ev_created_at = 0\<rparr>"
      2 "\<lparr>ev_link = str ''c'', ev_title = str ''t'', ev_published_at = 0, ev_lang = str ''en'',
          ev_score = 1, ev_lat = 123461 / 100000, ev_lon = 987651 / 100000, ev_place = str ''p'',
          ev_created_at = 0\<rparr>"] r
    by simp
qed

text \<open>
  The two events of the example, saved into a fresh store, come out as two points of
  count 1, not as one point of count 2.
\<close>

theorem aggregate_same_bucket_counterexample:
  "save_events [\<lparr>ev_link = str ''a'', ev_title = str ''t'', ev_published_at = 0, ev_lang = str ''en'',
          ev_score = 1, ev_lat = 123456 / 100000, ev_lon = 987654 / 100000, ev_place = str ''p'',
          ev_created_at = 0\<rparr>,
      \<lparr>ev_link = str ''b'', ev_title = str ''t'', ev_published_at = 0, ev_lang = str ''en'',
          ev_score = 1, ev_lat = 123449 / 100000, ev_lon = 987649 / 100000, ev_place = str ''p'',
          ev_created_at = 0\<rparr>] (ensure_db None)
   = Inr (Some [(1, \<lparr>ev_link = str ''a'', ev_title = str ''t'', ev_published_at = 0, ev_lang = str ''en'',
          ev_score = 1, ev_lat = 123456 / 100000, ev_lon = 987654 / 100000, ev_place = str ''p'',
          ev_created_at = 0\<rparr>),
      (2, \<lparr>ev_link = str ''b'', ev_title = str ''t'', ev_published_at = 0, ev_lang = str ''en'',
          ev_score = 1, ev_lat = 123449 / 100000, ev_lon = 987649 / 100000, ev_place = str ''p'',
          ev_created_at = 0\<rparr>)]) \<and>
   aggregate (Some [(1, \<lparr>ev_link = str ''a'', ev_title = str ''t'', ev_published_at = 0, ev_lang = str ''en'',
          ev_score = 1, ev_lat = 123456 / 100000, ev_lon = 987654 / 100000, ev_place = str ''p'',
          ev_created_at = 0\<rparr>),
      (2, \<lparr>ev_link = str ''b'', ev_title = str ''t'', ev_published_at = 0, ev_lang = str ''en'',
          ev_score = 1, ev_lat = 123449 / 100000, ev_lon = 987649 / 100000, ev_place = str ''p'',
          ev_created_at = 0\<rparr>)])
   = Inr [(1235 / 1000, 9877 / 1000, 1), (1234 / 1000, 9876 / 1000, 1)]"
proof -
  have f: "\<lfloor>61753 / 50 :: rat\<rfloor> = 1235" "\<lfloor>123499 / 100 :: rat\<rfloor> = 1234"
    "\<lfloor>246926 / 25 :: rat\<rfloor> = 9877" "\<lfloor>987699 / 100 :: rat\<rfloor> = 9876"
    by (simp_all add: floor_eq_iff)
  have a: "str ''b'' \<noteq> str ''a''"
    by (simp add: str_def)
  show ?thesis
    using a by (simp add: save_events_def ensure_db_def insert_or_ignore_def links_def
        next_id_def aggregate_def bucket_def round3_def f)
qed

section \<open>Properties of the ingestion\<close>

lemma item_of_mono:
  "item_of clock lo hi e it \<Longrightarrow> lo' \<le> lo \<Longrightarrow> hi \<le> hi' \<Longrightarrow> item_of clock lo' hi' e it"
  by (cases "entry_pub e") (auto simp: item_of_def)

lemma list_all2_item_of_mono:
  "list_all2 (item_of clock lo hi) es its \<Longrightarrow> lo' \<le> lo \<Longrightarrow> hi \<le> hi' \<Longrightarrow>
     list_all2 (item_of clock lo' hi') es its"
  by (erule list_all2_mono) (rule item_of_mono)

lemma entry_step_rejected:
  "\<not> admitted s e \<Longrightarrow> entry_step (Aware s) clock e (out, n) = Inr (out, n)"
  by (auto simp: admitted_def entry_step_def Let_def split: option.splits)

lemma entry_step_admitted:
  assumes "admitted s e"
  shows "\<exists>it n'. entry_step (Aware s) clock e (out, n) = Inr (out @ [it], n') \<and>
           n \<le> n' \<and> item_of clock n n' e it"
proof (cases "entry_pub e")
  case None
  with assms show ?thesis
    by (auto simp: admitted_def entry_step_def Let_def dt_utc_def item_of_def
        split: option.splits)
next
  case (Some p)
  with assms show ?thesis
    by (auto simp: admitted_def entry_step_def Let_def item_of_def split: option.splits)
qed

lemma entries_loop_admitted:
  "\<exists>new n'. entries_loop (Aware s) clock es (out, n) = Inr (out @ new, n') \<and> n \<le> n' \<and>
     list_all2 (item_of clock n n') (filter (admitted s) es) new"
proof (induction es arbitrary: out n)
  case Nil
  then show ?case by simp
next
  case (Cons e es)
  show ?case
  proof (cases "admitted s e")
    case False
    with Cons.IH [of out n] show ?thesis
      by (simp add: entry_step_rejected)
  next
    case True
    from entry_step_admitted [OF True, of clock out n] obtain it m
      where st: "entry_step (Aware s) clock e (out, n) = Inr (out @ [it], m)"
        and nm: "n \<le> m" and io: "item_of clock n m e it"
      by blast
    from Cons.IH [of "out @ [it]" m] obtain new n'
      where lp: "entries_loop (Aware s) clock es (out @ [it], m) = Inr ((out @ [it]) @ new, n')"
        and mn: "m \<le> n'" and rel: "list_all2 (item_of clock m n') (filter (admitted s) es) new"
      by blast
    have "list_all2 (item_of clock n n') (filter (admitted s) (e # es)) (it # new)"
      using True item_of_mono [OF io, of n n'] list_all2_item_of_mono [OF rel, of n n'] nm mn
      by simp
    then show ?thesis
      using st lp nm mn by (intro exI [of _ "it # new"] exI [of _ n']) simp
  qed
qed

lemma feeds_loop_admitted:
  assumes "\<forall>u \<in> set urls. parse u = Inr (feed u)"
  shows "\<exists>new n'. feeds_loop parse (Aware s) clock urls (out, n) = Inr (out @ new, n') \<and> n \<le> n' \<and>
     list_all2 (item_of clock n n') (filter (admitted s) (concat (map feed urls))) new"
  using assms
proof (induction urls arbitrary: out n)
  case Nil
  then show ?case by simp
next
  case (Cons u urls)
  from entries_loop_admitted [of s clock "feed u" out n] obtain new1 m
    where e: "entries_loop (Aware s) clock (feed u) (out, n) = Inr (out @ new1, m)"
      and nm: "n \<le> m"
      and r1: "list_all2 (item_of clock n m) (filter (admitted s) (feed u)) new1"
    by blast
  from Cons.IH [of "out @ new1" m] Cons.prems obtain new2 n'
    where f: "feeds_loop parse (Aware s) clock urls (out @ new1, m) = Inr ((out @ new1) @ new2, n')"
      and mn: "m \<le> n'"
      and r2: "list_all2 (item_of clock m n') (filter (admitted s) (concat (map feed urls))) new2"
    by auto
  have "list_all2 (item_of clock n n')
          (filter (admitted s) (concat (map feed (u # urls)))) (new1 @ new2)"
    using list_all2_item_of_mono [OF r1, of n n'] list_all2_item_of_mono [OF r2, of n n'] nm mn
    by (simp add: list_all2_appendI)
  moreover have "feeds_loop parse (Aware s) clock (u # urls) (out, n) = Inr (out @ new1 @ new2, n')"
    using Cons.prems e f by simp
  ultimately show ?case
    using nm mn by (intro exI [of _ "new1 @ new2"] exI [of _ n']) simp
qed

text \<open>
  C8. With a cutoff that denotes an instant and feeds that parse, \<open>fetch_rss_items\<close>
  returns, in the order of the feeds, one item for every admitted entry and for no
  other. An entry without a link, with an empty link or without a title that is
  non-empty is not admitted; an entry with a time stamp older than the cutoff is not
  admitted; an entry with link and title and no time stamp is admitted, and its item
  is stamped with a reading of the clock taken during the call.
\<close>

theorem fetch_rss_items_filters:
  assumes "fromisoformat (replace_Z since_iso) = Inr (Aware s)"
    and "\<forall>u \<in> set urls. parse u = Inr (feed u)"
  shows "(\<exists>out n'. fetch_rss_items parse fromisoformat clock urls since_iso n = Inr (out, n') \<and>
            list_all2 (item_of clock n n') (filter (admitted s) (concat (map feed urls))) out) \<and>
         (\<forall>e. e_link e = None \<or> e_link e = Some [] \<or> e_title e = None \<or> e_title e = Some []
              \<longrightarrow> \<not> admitted s e) \<and>
         (\<forall>e p. entry_pub e = Some p \<and> p < s \<longrightarrow> \<not> admitted s e) \<and>
         (\<forall>e l. e_link e = Some l \<and> l \<noteq> [] \<and> entry_title e \<noteq> [] \<and> entry_pub e = None
              \<longrightarrow> admitted s e \<and>
                  (\<forall>it lo hi. item_of clock lo hi e it \<longrightarrow>
                     (\<exists>k \<in> {lo..<hi}. published_at it = clock k)))"
proof -
  from feeds_loop_admitted [OF assms(2), of s clock "[]" n]
  have 1: "\<exists>out n'. fetch_rss_items parse fromisoformat clock urls since_iso n = Inr (out, n') \<and>
            list_all2 (item_of clock n n') (filter (admitted s) (concat (map feed urls))) out"
    using assms(1) by (auto simp: fetch_rss_items_def)
  have 2: "\<forall>e. e_link e = None \<or> e_link e = Some [] \<or> e_title e = None \<or> e_title e = Some []
              \<longrightarrow> \<not> admitted s e"
    by (auto simp: admitted_def entry_title_def strip_def)
  have 3: "\<forall>e p. entry_pub e = Some p \<and> p < s \<longrightarrow> \<not> admitted s e"
    by (auto simp: admitted_def)
  have 4: "\<forall>e l. e_link e = Some l \<and> l \<noteq> [] \<and> entry_title e \<noteq> [] \<and> entry_pub e = None
              \<longrightarrow> admitted s e \<and>
                  (\<forall>it lo hi. item_of clock lo hi e it \<longrightarrow>
                     (\<exists>k \<in> {lo..<hi}. published_at it = clock k))"
    by (auto simp: admitted_def item_of_def)
  from 1 2 3 4 show ?thesis by blast
qed

text \<open>
  One feed with five entries and the cutoff 100: no link, too old, no time stamp (and a
  title to strip), blank title, and only an update time. The clock starts at 1000.
\<close>

theorem fetch_rss_items_filters_witness:
  "(\<lambda>_. Inr (Aware 100) :: exn + py_datetime) (replace_Z (str ''Z'')) = Inr (Aware 100) \<and>
   fetch_rss_items
     (\<lambda>_. Inr [\<lparr>e_link = None, e_title = Some (str ''no link''), published_parsed = Some 200,
          updated_parsed = None\<rparr>,
        \<lparr>e_link = Some (str ''old''), e_title = Some (str ''Old''), published_parsed = Some 50,
          updated_parsed = Some 300\<rparr>,
        \<lparr>e_link = Some (str ''new''), e_title = Some (str '' New ''), published_parsed = None,
          updated_parsed = None\<rparr>,
        \<lparr>e_link = Some (str ''blank''), e_title = Some (str ''  ''), published_parsed = Some 200,
          updated_parsed = None\<rparr>,
        \<lparr>e_link = Some (str ''upd''), e_title = Some (str ''Upd''), published_parsed = None,
          updated_parsed = Some 150\<rparr>])
     (\<lambda>_. Inr (Aware 100)) (\<lambda>k. 1000 + int k) [str ''feed''] (str ''Z'') 0
   = Inr ([\<lparr>link = str ''new'', title = str ''New'', published_at = 1000\<rparr>,
      \<lparr>link = str ''upd'', title = str ''Upd'', published_at = 150\<rparr>], 1) \<and>
   list_all2 (item_of (\<lambda>k. 1000 + int k) 0 1)
     (filter (admitted 100) (concat (map
        (\<lambda>_. [\<lparr>e_link = None, e_title = Some (str ''no link''), published_parsed = Some 200,
          updated_parsed = None\<rparr>,
        \<lparr>e_link = Some (str ''old''), e_title = Some (str ''Old''), published_parsed = Some 50,
          updated_parsed = Some 300\<rparr>,
        \<lparr>e_link = Some (str ''new''), e_title = Some (str '' New ''), published_parsed = None,
          updated_parsed = None\<rparr>,
        \<lparr>e_link = Some (str ''blank''), e_title = Some (str ''  ''), published_parsed = Some 200,
          updated_parsed = None\<rparr>,
        \<lparr>e_link = Some (str ''upd''), e_title = Some (str ''Upd''), published_parsed = None,
          updated_parsed = Some 150\<rparr>])
        [str ''feed''])))
     [\<lparr>link = str ''new'', title = str ''New'', published_at = 1000\<rparr>,
      \<lparr>link = str ''upd'', title = str ''Upd'', published_at = 150\<rparr>]"
proof -
  have s: "strip (str ''Old'') = str ''Old''" "strip (str '' New '') = str ''New''"
    "strip (str ''  '') = []" "strip (str ''Upd'') = str ''Upd''"
    by (simp_all add: strip_def str_def isspace_def)
  have n: "str ''old'' \<noteq> []" "str ''new'' \<noteq> []" "str ''blank'' \<noteq> []" "str ''upd'' \<noteq> []"
    "str ''Old'' \<noteq> []" "str ''New'' \<noteq> []" "str ''Upd'' \<noteq> []"
    by (simp_all add: str_def)
  have run: "fetch_rss_items
     (\<lambda>_. Inr [\<lparr>e_link = None, e_title = Some (str ''no link''), published_parsed = Some 200,
          updated_parsed = None\<rparr>,
        \<lparr>e_link = Some (str ''old''), e_title = Some (str ''Old''), published_parsed = Some 50,
          updated_parsed = Some 300\<rparr>,
        \<lparr>e_link = Some (str ''new''), e_title = Some (str '' New ''), published_parsed = None,
          updated_parsed = None\<rparr>,
        \<lparr>e_link = Some (str ''blank''), e_title = Some (str ''  ''), published_parsed = Some 200,
          updated_parsed = None\<rparr>,
        \<lparr>e_link = Some (str ''upd''), e_title = Some (str ''Upd''), published_parsed = None,
          updated_parsed = Some 150\<rparr>])
     (\<lambda>_. Inr (Aware 100)) (\<lambda>k. 1000 + int k) [str ''feed''] (str ''Z'') 0
   = Inr ([\<lparr>link = str ''new'', title = str ''New'', published_at = 1000\<rparr>,
      \<lparr>link = str ''upd'', title = str ''Upd'', published_at = 150\<rparr>], 1)"
    by (simp add: fetch_rss_items_def entry_step_def entry_title_def entry_pub_def py_or_def
        dt_utc_def s n)
  have "\<exists>out n'. fetch_rss_items
     (\<lambda>_. Inr [\<lparr>e_link = None, e_title = Some (str ''no link''), published_parsed = Some 200,
          updated_parsed = None\<rparr>,
        \<lparr>e_link = Some (str ''old''), e_title = Some (str ''Old''), published_parsed = Some 50,
          updated_parsed = Some 300\<rparr>,
        \<lparr>e_link = Some (str ''new''), e_title = Some (str '' New ''), published_parsed = None,
          updated_parsed = None\<rparr>,
        \<lparr>e_link = Some (str ''blank''), e_title = Some (str ''  ''), published_parsed = Some 200,
          updated_parsed = None\<rparr>,
        \<lparr>e_link = Some (str ''upd''), e_title = Some (str ''Upd''), published_parsed = None,
          updated_parsed = Some 150\<rparr>])
     (\<lambda>_. Inr (Aware 100)) (\<lambda>k. 1000 + int k) [str ''feed''] (str ''Z'') 0 = Inr (out, n') \<and>
     list_all2 (item_of (\<lambda>k. 1000 + int k) 0 n')
       (filter (admitted 100) (concat (map
          (\<lambda>_. [\<lparr>e_link = None, e_title = Some (str ''no link''), published_parsed = Some 200,
          updated_parsed = None\<rparr>,
        \<lparr>e_link = Some (str ''old''), e_title = Some (str ''Old''), published_parsed = Some 50,
          updated_parsed = Some 300\<rparr>,
        \<lparr>e_link = Some (str ''new''), e_title = Some (str '' New ''), published_parsed = None,
          updated_parsed = None\<rparr>,
        \<lparr>e_link = Some (str ''blank''), e_title = Some (str ''  ''), published_parsed = Some 200,
          updated_parsed = None\<rparr>,
        \<lparr>e_link = Some (str ''upd''), e_title = Some (str ''Upd''), published_parsed = None,
          updated_parsed = Some 150\<rparr>])
          [str ''feed'']))) out"
    using fetch_rss_items_filters
      [where fromisoformat = "\<lambda>_. Inr (Aware 100)" and since_iso = "str ''Z''" and s = 100
       and urls = "[str ''feed'']"
       and parse = "\<lambda>_. Inr [\<lparr>e_link = None, e_title = Some (str ''no link''), published_parsed = Some 200,
          updated_parsed = None\<rparr>,
        \<lparr>e_link = Some (str ''old''), e_title = Some (str ''Old''), published_parsed = Some 50,
          updated_parsed = Some 300\<rparr>,
        \<lparr>e_link = Some (str ''new''), e_title = Some (str '' New ''), published_parsed = None,
          updated_parsed = None\<rparr>,
        \<lparr>e_link = Some (str ''blank''), e_title = Some (str ''  ''), published_parsed = Some 200,
          updated_parsed = None\<rparr>,
        \<lparr>e_link = Some (str ''upd''), e_title = Some (str ''Upd''), published_parsed = None,
          updated_parsed = Some 150\<rparr>]"
       and feed = "\<lambda>_. [\<lparr>e_link = None, e_title = Some (str ''no link''), published_parsed = Some 200,
          updated_parsed = None\<rparr>,
        \<lparr>e_link = Some (str ''old''), e_title = Some (str ''Old''), published_parsed = Some 50,
          updated_parsed = Some 300\<rparr>,
        \<lparr>e_link = Some (str ''new''), e_title = Some (str '' New ''), published_parsed = None,
          updated_parsed = None\<rparr>,
        \<lparr>e_link = Some (str ''blank''), e_title = Some (str ''  ''), published_parsed = Some 200,
          updated_parsed = None\<rparr>,
        \<lparr>e_link = Some (str ''upd''), e_title = Some (str ''Upd''), published_parsed = None,
          updated_parsed = Some 150\<rparr>]"
       and clock = "\<lambda>k. 1000 + int k" and n = 0]
    by fast
  then show ?thesis
    unfolding run by fastforce
qed

section \<open>Properties of the geocoding\<close>

lemma geocode_loop_no_raise:
  assumes "\<forall>n \<in> set names. rate n = Inr (g n)"
  shows "geocode_loop rate names out calls =
           (Inr (out @ map (\<lambda>n. (fst (the (g n)), snd (the (g n)), n))
                         (filter (\<lambda>n. truthy_location (g n)) names)),
            calls @ names)"
  using assms by (induction names arbitrary: out calls) simp_all

lemma first_geo_map_filter:
  "first_geo (map f (filter P xs)) = (case find P xs of None \<Rightarrow> None | Some x \<Rightarrow> Some (f x))"
  by (induction xs) (simp_all add: first_geo_def)

text \<open>
  C2, as the program has it. With a geocoder that does not raise and returns no
  coordinate that is zero, \<open>geocode_places\<close> calls the geocoder once for every
  candidate, in order, also behind the first candidate that resolves; the location
  the pipeline takes is that of the first candidate that resolves, with the
  candidate's name, and there is none when no candidate resolves.
\<close>

theorem geocode_places_first_match:
  assumes "\<forall>n \<in> set names. rate n = Inr (g n)"
    and "\<forall>n \<in> set names. \<forall>lat lon. g n = Some (lat, lon) \<longrightarrow> lat \<noteq> 0 \<and> lon \<noteq> 0"
  shows "\<exists>geos. geocode_places rate names calls = (Inr geos, calls @ names) \<and>
           first_geo geos =
             (case find (\<lambda>n. g n \<noteq> None) names of
                None \<Rightarrow> None
              | Some n \<Rightarrow> Some (fst (the (g n)), snd (the (g n)), n))"
proof -
  have "filter (\<lambda>n. truthy_location (g n)) names = filter (\<lambda>n. g n \<noteq> None) names"
    using assms(2) by (intro filter_cong) (auto simp: truthy_location_def split: option.splits)
  then show ?thesis
    using geocode_loop_no_raise [OF assms(1), of "[]" calls]
    by (simp add: geocode_places_def first_geo_map_filter)
qed

text \<open>
  A geocoder that knows Lisboa and Porto, asked for Atlantis, Lisboa and Porto: three
  calls, and the location of Lisboa is taken.
\<close>

theorem geocode_places_first_match_witness:
  "\<exists>geos. geocode_places
      (\<lambda>n. Inr (if n = str ''Lisboa'' then Some (387 / 10, - 91 / 10)
                    else if n = str ''Porto'' then Some (411 / 10, - 86 / 10) else None))
      [str ''Atlantis'', str ''Lisboa'', str ''Porto''] []
    = (Inr geos, [str ''Atlantis'', str ''Lisboa'', str ''Porto'']) \<and>
    first_geo geos = Some (387 / 10, - 91 / 10, str ''Lisboa'')"
proof -
  have d: "str ''Atlantis'' \<noteq> str ''Lisboa''" "str ''Atlantis'' \<noteq> str ''Porto''"
    "str ''Lisboa'' \<noteq> str ''Porto''" "str ''Porto'' \<noteq> str ''Lisboa''"
    by (simp_all add: str_def)
  have 1: "\<forall>n \<in> set [str ''Atlantis'', str ''Lisboa'', str ''Porto''].
      (\<lambda>n. Inr (if n = str ''Lisboa'' then Some (387 / 10, - 91 / 10)
                    else if n = str ''Porto'' then Some (411 / 10, - 86 / 10) else None)) n
      = Inr ((\<lambda>n :: ustr. if n = str ''Lisboa'' then Some (387 / 10 :: rat, - 91 / 10 :: rat)
               else if n = str ''Porto'' then Some (411 / 10, - 86 / 10) else None) n)"
    by simp
  have 2: "\<forall>n \<in> set [str ''Atlantis'', str ''Lisboa'', str ''Porto'']. \<forall>lat lon.
      (\<lambda>n :: ustr. if n = str ''Lisboa'' then Some (387 / 10 :: rat, - 91 / 10 :: rat)
               else if n = str ''Porto'' then Some (411 / 10, - 86 / 10) else None) n = Some (lat, lon) \<longrightarrow> lat \<noteq> 0 \<and> lon \<noteq> 0"
    by (simp add: d)
  have f: "find (\<lambda>n. (\<lambda>n :: ustr. if n = str ''Lisboa'' then Some (387 / 10 :: rat, - 91 / 10 :: rat)
               else if n = str ''Porto'' then Some (411 / 10, - 86 / 10) else None) n \<noteq> None)
             [str ''Atlantis'', str ''Lisboa'', str ''Porto''] = Some (str ''Lisboa'')"
    by code_simp
  have e: "\<exists>geos. geocode_places
      (\<lambda>n. Inr (if n = str ''Lisboa'' then Some (387 / 10, - 91 / 10)
                    else if n = str ''Porto'' then Some (411 / 10, - 86 / 10) else None))
      [str ''Atlantis'', str ''Lisboa'', str ''Porto''] []
      = (Inr geos, [] @ [str ''Atlantis'', str ''Lisboa'', str ''Porto'']) \<and>
    first_geo geos =
      (case find (\<lambda>n. (\<lambda>n :: ustr. if n = str ''Lisboa'' then Some (387 / 10 :: rat, - 91 / 10 :: rat)
               else if n = str ''Porto'' then Some (411 / 10, - 86 / 10) else None) n \<noteq> None)
              [str ''Atlantis'', str ''Lisboa'', str ''Porto''] of
         None \<Rightarrow> None
       | Some n \<Rightarrow> Some (fst (the ((\<lambda>n :: ustr. if n = str ''Lisboa'' then Some (387 / 10 :: rat, - 91 / 10 :: rat)
               else if n = str ''Porto'' then Some (411 / 10, - 86 / 10) else None) n)),
                        snd (the ((\<lambda>n :: ustr. if n = str ''Lisboa'' then Some (387 / 10 :: rat, - 91 / 10 :: rat)
               else if n = str ''Porto'' then Some (411 / 10, - 86 / 10) else None) n)), n))"
    by (rule geocode_places_first_match
      [where rate = "(\<lambda>n. Inr (if n = str ''Lisboa'' then Some (387 / 10, - 91 / 10)
                    else if n = str ''Porto'' then Some (411 / 10, - 86 / 10) else None))"
         and g = "(\<lambda>n :: ustr. if n = str ''Lisboa'' then Some (387 / 10 :: rat, - 91 / 10 :: rat)
               else if n = str ''Porto'' then Some (411 / 10, - 86 / 10) else None)"
         and names = "[str ''Atlantis'', str ''Lisboa'', str ''Porto'']" and calls = "[]",
       OF 1 2])
  from e [unfolded f] show ?thesis
    by simp
qed

text \<open>
  Asked for Lisboa and Porto, the geocoder is called for Porto too, although Lisboa
  has resolved: the selection does not stop at the first valid coordinate.
\<close>

theorem geocode_places_stops_counterexample:
  "geocode_places
      (\<lambda>n. Inr (if n = str ''Lisboa'' then Some (387 / 10, - 91 / 10)
                    else if n = str ''Porto'' then Some (411 / 10, - 86 / 10) else None))
      [str ''Lisboa'', str ''Porto''] []
    = (Inr [(387 / 10, - 91 / 10, str ''Lisboa''), (411 / 10, - 86 / 10, str ''Porto'')],
       [str ''Lisboa'', str ''Porto''])"
proof -
  have d: "str ''Lisboa'' \<noteq> str ''Porto''" "str ''Porto'' \<noteq> str ''Lisboa''"
    by (simp_all add: str_def)
  show ?thesis
    by (simp add: geocode_places_def truthy_location_def d)
qed

lemma geocode_loop_falsy:
  assumes "\<forall>n \<in> set names. \<exists>g. rate n = Inr g \<and> \<not> truthy_location g"
  shows "geocode_loop rate names out calls = (Inr out, calls @ names)"
  using assms by (induction names arbitrary: out calls) auto

lemma geocode_loop_nonzero:
  "geocode_loop rate names out calls = (Inr geos, c) \<Longrightarrow>
   \<forall>x \<in> set out. fst x \<noteq> 0 \<and> fst (snd x) \<noteq> 0 \<Longrightarrow>
   \<forall>x \<in> set geos. fst x \<noteq> 0 \<and> fst (snd x) \<noteq> 0"
proof (induction rate names out calls rule: geocode_loop.induct)
  case (1 rate out calls)
  then show ?case by simp
next
  case (2 rate n names out calls)
  show ?case
  proof (cases "rate n")
    case (Inl x)
    with "2.prems"(1) show ?thesis by simp
  next
    case (Inr g)
    show ?thesis
    proof (cases "truthy_location g")
      case True
      then obtain lat lon where g: "g = Some (lat, lon)" and nz: "lat \<noteq> 0" "lon \<noteq> 0"
        by (cases g) (auto simp: truthy_location_def)
      have step: "geocode_loop rate names (out @ [(lat, lon, n)]) (calls @ [n]) = (Inr geos, c)"
        using "2.prems"(1) Inr True g by simp
      have inv: "\<forall>x \<in> set (out @ [(lat, lon, n)]). fst x \<noteq> 0 \<and> fst (snd x) \<noteq> 0"
        using "2.prems"(2) nz by simp
      have "fst (the g) = lat" "snd (the g) = lon"
        using g by simp_all
      with "2.IH"(1) [OF Inr True] step inv show ?thesis
        by simp
    next
      case False
      have step: "geocode_loop rate names out (calls @ [n]) = (Inr geos, c)"
        using "2.prems"(1) Inr False by simp
      from "2.IH"(2) [OF Inr False step "2.prems"(2)] show ?thesis .
    qed
  qed
qed

section \<open>Properties of the pipeline\<close>



lemma sample_places:
  "extract_places (env_lower sample_env) sample_text
     [str ''en'' \<mapsto> (\<lambda>_. Inr [(str ''Lisboa'', str ''GPE''), (str ''Monday'', str ''DATE'')]),
      str ''pt'' \<mapsto> (\<lambda>_. Inr [(str ''Lisboa'', str ''GPE''), (str ''Monday'', str ''DATE'')])]
     (lang_of (env_detect sample_env) sample_text) = Inr [str ''Lisboa'']"
proof -
  have l: "lang_of (env_detect sample_env) sample_text = str ''en''"
    by (simp add: lang_of_def sample_env_def str_def)
  show ?thesis
    unfolding l by code_simp
qed



lemma item_body_shape:
  "snd (item_body env nlp it st) = st \<or>
   (\<exists>text s st1. env_fetch env (link it) = Inr text \<and> to_save st1 = to_save st \<and>
      geo_calls st1 = geo_calls st \<and>
      item_body env nlp it st =
        place_stage env nlp it text (lang_of (env_detect env) text) s st1)"
proof (cases "env_fetch env (link it)")
  case (Inl x)
  then show ?thesis by (simp add: item_body_def)
next
  case tx: (Inr t0)
  let ?lang = "lang_of (env_detect env) t0"
  show ?thesis
  proof (cases "crime_score (env_lower env) t0 ?lang")
    case (Inl x)
    with tx show ?thesis by (simp add: item_body_def)
  next
    case s: (Inr s)
    show ?thesis
    proof (cases "s < 6 / 10")
      case True
      with tx s show ?thesis by (simp add: item_body_def)
    next
      case ge: False
      show ?thesis
      proof (cases "text_signature (env_lower env) (env_isalnum env) (env_update env) 128 t0")
        case (Inl x)
        with tx s ge show ?thesis by (simp add: item_body_def)
      next
        case sg: (Inr sg)
        show ?thesis
        proof (cases "lsh_query sg (rs_lsh st)")
          case (Inl x)
          with tx s ge sg show ?thesis by (simp add: item_body_def)
        next
          case q: (Inr cands)
          show ?thesis
          proof (cases "cands = {}")
            case False
            with tx s ge sg q show ?thesis by (simp add: item_body_def)
          next
            case emp: True
            show ?thesis
            proof (cases "encode (link it)")
              case (Inl x)
              with tx s ge sg q emp show ?thesis by (simp add: item_body_def)
            next
              case bs: (Inr bs)
              show ?thesis
              proof (cases "lsh_insert (env_sha1 env bs) sg (rs_lsh st)")
                case (Inl x)
                with tx s ge sg q emp bs show ?thesis by (simp add: item_body_def)
              next
                case (Inr l')
                let ?st1 = "st\<lparr>rs_lsh := l', sig_index := (sig_index st)(env_sha1 env bs \<mapsto> sg)\<rparr>"
                have "item_body env nlp it st = place_stage env nlp it t0 ?lang s ?st1"
                  using tx s ge sg q emp bs Inr by (simp add: item_body_def)
                moreover have "to_save ?st1 = to_save st" "geo_calls ?st1 = geo_calls st"
                  by simp_all
                ultimately show ?thesis
                  using tx by blast
              qed
            qed
          qed
        qed
      qed
    qed
  qed
qed




lemma place_stage_unresolved:
  assumes "extract_places (env_lower env) t0 nlp lang = Inr names"
    and "geocode_places (env_rate env) names (geo_calls st) = (Inr [], c)"
  shows "to_save (snd (place_stage env nlp it t0 lang s st)) = to_save st"
  using assms by (simp add: place_stage_def first_geo_def)


text \<open>
  C10. A geocoding result whose latitude or longitude is zero never enters the list
  of \<open>geocode_places\<close>. So when every candidate of an item either does not resolve or
  resolves to a point on the equator or on the prime meridian, the list is empty,
  and the item adds nothing to the events to save.
\<close>

theorem zero_coordinates_never_saved:
  assumes "\<forall>n \<in> set names. rate n = Inr None \<or>
             (\<exists>lat lon. rate n = Inr (Some (lat, lon)) \<and> (lat = 0 \<or> lon = 0))"
  shows "geocode_places rate names calls = (Inr [], calls @ names) \<and>
         (\<forall>ns cs geos c. geocode_places rate ns cs = (Inr geos, c) \<longrightarrow>
            (\<forall>x \<in> set geos. fst x \<noteq> 0 \<and> fst (snd x) \<noteq> 0)) \<and>
         (\<forall>env nlp it st doc.
            env_rate env = rate \<and> env_fetch env (link it) = Inr doc \<and>
            extract_places (env_lower env) doc nlp (lang_of (env_detect env) doc) = Inr names
            \<longrightarrow> to_save (process_item env nlp it st) = to_save st)"
proof -
  have f: "\<forall>n \<in> set names. \<exists>g. rate n = Inr g \<and> \<not> truthy_location g"
  proof
    fix n assume "n \<in> set names"
    with assms consider "rate n = Inr None"
      | lat lon where "rate n = Inr (Some (lat, lon))" "lat = 0 \<or> lon = 0"
      by blast
    then show "\<exists>g. rate n = Inr g \<and> \<not> truthy_location g"
      by cases (simp_all add: truthy_location_def)
  qed
  have 1: "geocode_places rate names cs = (Inr [], cs @ names)" for cs
    using geocode_loop_falsy [OF f, of "[]" cs] by (simp add: geocode_places_def)
  have 2: "\<forall>ns cs geos c. geocode_places rate ns cs = (Inr geos, c) \<longrightarrow>
            (\<forall>x \<in> set geos. fst x \<noteq> 0 \<and> fst (snd x) \<noteq> 0)"
  proof (intro allI impI)
    fix ns cs geos c
    assume "geocode_places rate ns cs = (Inr geos, c)"
    then have "geocode_loop rate ns [] cs = (Inr geos, c)"
      by (simp add: geocode_places_def)
    from geocode_loop_nonzero [OF this] show "\<forall>x \<in> set geos. fst x \<noteq> 0 \<and> fst (snd x) \<noteq> 0"
      by simp
  qed
  have 3: "to_save (process_item env nlp it st) = to_save st"
    if r: "env_rate env = rate" and t: "env_fetch env (link it) = Inr doc"
      and e: "extract_places (env_lower env) doc nlp (lang_of (env_detect env) doc) = Inr names"
    for env nlp it st doc
  proof -
    from item_body_shape [of env nlp it st]
    consider "snd (item_body env nlp it st) = st"
      | t1 s st1 where "env_fetch env (link it) = Inr t1" "to_save st1 = to_save st"
          "item_body env nlp it st =
             place_stage env nlp it t1 (lang_of (env_detect env) t1) s st1"
      by blast
    then show ?thesis
    proof cases
      case 1
      then show ?thesis by (simp add: process_item_def)
    next
      case 2
      with t have eq: "t1 = doc" by simp
      have "geocode_places (env_rate env) names (geo_calls st1) = (Inr [], geo_calls st1 @ names)"
        using 1 [of "geo_calls st1"] r by simp
      from place_stage_unresolved [OF e this, of it s] 2 eq show ?thesis
        by (simp add: process_item_def)
    qed
  qed
  from 1 [of calls] 2 3 show ?thesis by blast
qed

text \<open>
  The sample environment with a geocoder that puts every name on the equator: the
  place Lisboa is found in the text and geocoded, and the item is not saved.
\<close>

theorem zero_coordinates_never_saved_witness:
  "geocode_places (\<lambda>_. Inr (Some (0, 5))) [str ''Lisboa''] [] = (Inr [], [str ''Lisboa'']) \<and>
   to_save (process_item (sample_env\<lparr>env_rate := \<lambda>_. Inr (Some (0, 5))\<rparr>)
      [str ''en'' \<mapsto> (\<lambda>_. Inr [(str ''Lisboa'', str ''GPE''), (str ''Monday'', str ''DATE'')]),
      str ''pt'' \<mapsto> (\<lambda>_. Inr [(str ''Lisboa'', str ''GPE''), (str ''Monday'', str ''DATE'')])]
      \<lparr>link = str ''good'', title = str ''Good'', published_at = 300\<rparr>
      \<lparr>rs_lsh = build_lsh 8 16 128, sig_index = Map.empty, to_save = [], rs_ticks = 0,
        geo_calls = []\<rparr>) = []"
proof -
  have hyp: "\<forall>n \<in> set [str ''Lisboa''].
      (\<lambda>_. Inr (Some (0, 5)) :: exn + location option) n = Inr None \<or>
      (\<exists>lat lon. (\<lambda>_. Inr (Some (0, 5)) :: exn + location option) n = Inr (Some (lat, lon)) \<and>
         (lat = 0 \<or> lon = 0))"
    by simp
  note z = zero_coordinates_never_saved
    [where rate = "\<lambda>_. Inr (Some (0, 5))" and names = "[str ''Lisboa'']" and calls = "[]",
     OF hyp]
  from z have 1:
    "geocode_places (\<lambda>_. Inr (Some (0, 5))) [str ''Lisboa''] [] = (Inr [], [str ''Lisboa''])"
    by simp
  have g: "str ''good'' \<noteq> str ''bad''"
    by (simp add: str_def)
  have f: "env_fetch (sample_env\<lparr>env_rate := \<lambda>_. Inr (Some (0, 5))\<rparr>)
      (link \<lparr>link = str ''good'', title = str ''Good'', published_at = 300\<rparr>) = Inr sample_text"
    using g by (simp add: sample_env_def)
  have e: "extract_places (env_lower (sample_env\<lparr>env_rate := \<lambda>_. Inr (Some (0, 5))\<rparr>)) sample_text
      [str ''en'' \<mapsto> (\<lambda>_. Inr [(str ''Lisboa'', str ''GPE''), (str ''Monday'', str ''DATE'')]),
      str ''pt'' \<mapsto> (\<lambda>_. Inr [(str ''Lisboa'', str ''GPE''), (str ''Monday'', str ''DATE'')])]
      (lang_of (env_detect (sample_env\<lparr>env_rate := \<lambda>_. Inr (Some (0, 5))\<rparr>)) sample_text)
      = Inr [str ''Lisboa'']"
    using sample_places by simp
  have r: "env_rate (sample_env\<lparr>env_rate := \<lambda>_. Inr (Some (0, 5))\<rparr>) = (\<lambda>_. Inr (Some (0, 5)))"
    by simp
  from z have "\<forall>env nlp it st doc.
            env_rate env = (\<lambda>_. Inr (Some (0, 5))) \<and> env_fetch env (link it) = Inr doc \<and>
            extract_places (env_lower env) doc nlp (lang_of (env_detect env) doc)
              = Inr [str ''Lisboa'']
            \<longrightarrow> to_save (process_item env nlp it st) = to_save st"
    by (elim conjE)
  from this [rule_format, OF conjI [OF r conjI [OF f e]]]
  have 2: "to_save (process_item (sample_env\<lparr>env_rate := \<lambda>_. Inr (Some (0, 5))\<rparr>)
      [str ''en'' \<mapsto> (\<lambda>_. Inr [(str ''Lisboa'', str ''GPE''), (str ''Monday'', str ''DATE'')]),
      str ''pt'' \<mapsto> (\<lambda>_. Inr [(str ''Lisboa'', str ''GPE''), (str ''Monday'', str ''DATE'')])]
      \<lparr>link = str ''good'', title = str ''Good'', published_at = 300\<rparr>
      \<lparr>rs_lsh = build_lsh 8 16 128, sig_index = Map.empty, to_save = [], rs_ticks = 0,
        geo_calls = []\<rparr>) = []"
    by simp
  from 1 2 show ?thesis by (intro conjI)
qed



section \<open>Properties of the near-duplicate index\<close>

lemma hashtables_after_insert:
  "map (\<lambda>(i, tbl). tbl(band r i m := insert key (tbl (band r i m))))
       (zip [0..<b] (replicate b (\<lambda>_. {})))
   = map (\<lambda>i. (\<lambda>_. {})(band r i m := {key})) [0..<b]"
  by (simp add: zip_replicate2)

lemma zip_upt_map: "zip [0..<b] (map f [0..<b]) = map (\<lambda>i. (i, f i)) [0..<b]"
  by (simp add: zip_map2 zip_same_conv_map)

lemma query_after_insert:
  assumes "length m = h" and "length m' = h"
  shows "\<exists>l. lsh_insert key m (build_lsh b r h) = Inr l \<and>
           lsh_query m' l = Inr (if \<exists>i \<in> {0..<b}. band r i m = band r i m' then {key} else {})"
proof -
  let ?l = "\<lparr>lsh_b = b, lsh_r = r, lsh_h = h,
             hashtables = map (\<lambda>i. (\<lambda>_. {})(band r i m := {key})) [0..<b],
             lsh_keys = {key}\<rparr>"
  have i: "lsh_insert key m (build_lsh b r h) = Inr ?l"
    using assms(1) by (simp add: lsh_insert_def build_lsh_def hashtables_after_insert)
  have q: "lsh_query m' ?l =
             Inr (if \<exists>i \<in> {0..<b}. band r i m = band r i m' then {key} else {})"
    using assms(2) by (auto simp: lsh_query_def zip_upt_map) (metis atLeastLessThan_iff le0)
  from i q show ?thesis by blast
qed

lemma no_tokens_initial_signature:
  "tokens lc an a = [] \<Longrightarrow> text_signature lc an upd n a = Inr (MinHash n)"
  by (simp add: text_signature_def)

lemma length_MinHash: "length (MinHash n) = n"
  by (simp add: MinHash_def)

lemma update_all_length:
  assumes "\<forall>m bs. length (upd m bs) = length m" and "update_all upd ts m = Inr m'"
  shows "length m' = length m"
  using assms(2)
proof (induction ts arbitrary: m)
  case Nil
  then show ?case by simp
next
  case (Cons t ts)
  then show ?case
    using assms(1) by (cases "encode t") auto
qed

text \<open>
  C5, as the program has it. The update of a MinHash keeps the number of hash values.
  For two texts with disjoint token sets, after the signature of the first is
  inserted into an empty index, the query with the signature of the second returns
  the key of the first exactly when the two signatures agree on all values of some
  band, and nothing otherwise. Disjoint token sets do not exclude that: when neither
  text has a token of five or more word characters, both signatures are the initial
  one and the query returns the key.
\<close>

theorem disjoint_tokens_query:
  assumes "\<forall>m bs. length (upd m bs) = length m"
    and "set (tokens lc an a) \<inter> set (tokens lc an b) = {}"
    and "text_signature lc an upd n a = Inr ma"
    and "text_signature lc an upd n b = Inr mb"
  shows "(\<exists>l. lsh_insert key ma (build_lsh bands rows n) = Inr l \<and>
            lsh_query mb l =
              Inr (if \<exists>i \<in> {0..<bands}. band rows i ma = band rows i mb then {key} else {})) \<and>
         (tokens lc an a = [] \<and> tokens lc an b = [] \<and> 0 < bands \<longrightarrow>
            (\<exists>l. lsh_insert key ma (build_lsh bands rows n) = Inr l \<and>
                 lsh_query mb l = Inr {key}))"
proof -
  have la: "length ma = n"
    using update_all_length [OF assms(1)] assms(3)
    by (fastforce simp: text_signature_def length_MinHash)
  have lb: "length mb = n"
    using update_all_length [OF assms(1)] assms(4)
    by (fastforce simp: text_signature_def length_MinHash)
  from query_after_insert [OF la lb, of key bands rows]
  obtain l where l: "lsh_insert key ma (build_lsh bands rows n) = Inr l"
    "lsh_query mb l =
       Inr (if \<exists>i \<in> {0..<bands}. band rows i ma = band rows i mb then {key} else {})"
    by (elim exE conjE)
  have "lsh_query mb l = Inr {key}"
    if "tokens lc an a = []" "tokens lc an b = []" "0 < bands"
  proof -
    have "ma = mb"
      using that assms(3,4) by (simp add: no_tokens_initial_signature)
    then show ?thesis
      using l(2) that(3) by auto
  qed
  with l show ?thesis by blast
qed

text \<open>
  With a toy update (every hash value becomes the least sum of the bytes of a token),
  four hash values in two bands of two, and two texts that share no token.
\<close>

theorem disjoint_tokens_query_witness:
  "set (tokens ascii_lower_ucs4 ascii_isalnum (str ''Hello world'')) \<inter>
     set (tokens ascii_lower_ucs4 ascii_isalnum (str ''goodbye friend'')) = {} \<and>
   text_signature ascii_lower_ucs4 ascii_isalnum (\<lambda>m bs. map (min (sum_list bs)) m) 4 (str ''Hello world'')
     = Inr [532, 532, 532, 532] \<and>
   text_signature ascii_lower_ucs4 ascii_isalnum (\<lambda>m bs. map (min (sum_list bs)) m) 4 (str ''goodbye friend'')
     = Inr [632, 632, 632, 632] \<and>
   (\<exists>l. lsh_insert (str ''k'') [532, 532, 532, 532] (build_lsh 2 2 4) = Inr l \<and>
        lsh_query [632, 632, 632, 632] l = Inr {})"
proof -
  have u: "\<forall>m bs. length ((\<lambda>m bs. map (min (sum_list bs)) m) m bs) = length m"
    by simp
  have ta: "tokens ascii_lower_ucs4 ascii_isalnum (str ''Hello world'') = [str ''hello'', str ''world'']"
    by code_simp
  have tb: "tokens ascii_lower_ucs4 ascii_isalnum (str ''goodbye friend'')
              = [str ''goodbye'', str ''friend'']"
    by code_simp
  have d: "set (tokens ascii_lower_ucs4 ascii_isalnum (str ''Hello world'')) \<inter>
     set (tokens ascii_lower_ucs4 ascii_isalnum (str ''goodbye friend'')) = {}"
    unfolding ta tb by (simp add: str_def)
  have e: "encode (str ''hello'') = Inr (str ''hello'')" "encode (str ''world'') = Inr (str ''world'')"
    "encode (str ''goodbye'') = Inr (str ''goodbye'')"
    "encode (str ''friend'') = Inr (str ''friend'')"
    by (simp_all add: str_def encode_char_def)
  have s: "sum_list (str ''hello'') = 532" "sum_list (str ''world'') = 552"
    "sum_list (str ''goodbye'') = 745" "sum_list (str ''friend'') = 632"
    by (simp_all add: str_def)
  have r: "replicate 4 x = [x, x, x, x]" for x :: nat
    by (simp add: numeral_eq_Suc)
  have m: "MinHash 4 = [4294967295, 4294967295, 4294967295, 4294967295]"
    unfolding MinHash_def r by (simp add: max_hash_def)
  have a: "text_signature ascii_lower_ucs4 ascii_isalnum (\<lambda>m bs. map (min (sum_list bs)) m) 4 (str ''Hello world'')
     = Inr [532, 532, 532, 532]"
    by (simp add: text_signature_def ta e s m)
  have b: "text_signature ascii_lower_ucs4 ascii_isalnum (\<lambda>m bs. map (min (sum_list bs)) m) 4 (str ''goodbye friend'')
     = Inr [632, 632, 632, 632]"
    by (simp add: text_signature_def tb e s m)
  have i2: "{0..<2::nat} = {0, 1}"
    by auto
  have n: "\<not> (\<exists>i \<in> {0..<2}. band 2 i [532, 532, 532, 532 :: nat] = band 2 i [632, 632, 632, 632])"
    unfolding i2 by (simp add: band_def)
  from disjoint_tokens_query [OF u d a b, of "str ''k''" 2 2]
  have "\<exists>l. lsh_insert (str ''k'') [532, 532, 532, 532] (build_lsh 2 2 4) = Inr l \<and>
        lsh_query [632, 632, 632, 632] l =
          Inr (if \<exists>i \<in> {0..<2}. band 2 i [532, 532, 532, 532 :: nat] = band 2 i [632, 632, 632, 632]
               then {str ''k''} else {})"
    by (rule conjunct1)
  then have "\<exists>l. lsh_insert (str ''k'') [532, 532, 532, 532] (build_lsh 2 2 4) = Inr l \<and>
        lsh_query [632, 632, 632, 632] l = Inr {}"
    unfolding if_not_P [OF n] .
  with a b d show ?thesis
    by (intro conjI)
qed

text \<open>
  The texts \<open>a\<close> and \<open>b\<close> have no token of five or more word characters, so their
  token sets are disjoint; both have the initial signature, and the query for the
  second finds the key of the first.
\<close>

theorem disjoint_tokens_collide_counterexample:
  "set (tokens ascii_lower_ucs4 ascii_isalnum (str ''a'')) \<inter>
     set (tokens ascii_lower_ucs4 ascii_isalnum (str ''b'')) = {} \<and>
   text_signature ascii_lower_ucs4 ascii_isalnum (\<lambda>m bs. map (min (sum_list bs)) m) 128 (str ''a'') = Inr (MinHash 128) \<and>
   text_signature ascii_lower_ucs4 ascii_isalnum (\<lambda>m bs. map (min (sum_list bs)) m) 128 (str ''b'') = Inr (MinHash 128) \<and>
   (\<exists>l. lsh_insert (str ''k'') (MinHash 128) (build_lsh 8 16 128) = Inr l \<and>
        lsh_query (MinHash 128) l = Inr {str ''k''})"
proof -
  have ta: "tokens ascii_lower_ucs4 ascii_isalnum (str ''a'') = []"
    by code_simp
  have tb: "tokens ascii_lower_ucs4 ascii_isalnum (str ''b'') = []"
    by code_simp
  have e: "\<exists>i \<in> {0..<8::nat}. band 16 i (MinHash 128) = band 16 i (MinHash 128)"
    by (intro bexI [of _ 0]) simp_all
  from query_after_insert [OF length_MinHash length_MinHash, of "str ''k''" 128 8 16]
  have "\<exists>l. lsh_insert (str ''k'') (MinHash 128) (build_lsh 8 16 128) = Inr l \<and>
        lsh_query (MinHash 128) l = Inr {str ''k''}"
    unfolding if_P [OF e] .
  then show ?thesis
    using ta tb by (simp add: no_tokens_initial_signature)
qed

end
